theory Spec2Isabelle
  imports Complex_Main "HOL-Library.Sublist" "HOL-Library.Char_ord"
    "HOL-Library.List_Lexorder" "HOL-Library.Option_ord"
begin

section \<open>Python values, text and exceptions\<close>

text \<open>
  The program is a single Python module, \<^verbatim>\<open>neurochat.py\<close>. Its functions talk to a
  SQLite file, to HTTP catalogues, to a text-completion client and to a sentiment scorer.
  Every function of the module that the properties below are about wraps its whole body in
  \<^verbatim>\<open>try: ... except Exception\<close>; the model keeps that shape: a body returns
  \<open>exn + 'a\<close> (\<open>Inl\<close> is a raised exception) and the function itself maps \<open>Inl\<close> to
  the value of its \<^verbatim>\<open>except\<close> clause.

  Text is a \<open>string\<close>; one \<open>char\<close> stands for one character, so that \<open>length\<close> is
  Python's \<^verbatim>\<open>len\<close>. The pictographs and the rupee sign of the source's literals do not
  fit into one \<open>char\<close>: they are spelled as their UTF-8 bytes. No operation of the program
  measures or cuts a text that holds one of them.
\<close>

datatype exn =
    SqliteError | RequestException | HTTPError | JSONDecodeError
  | KeyError | TypeError | AttributeError | ValueError | OverflowError | APIError

datatype pyval =
    PNone | PBool bool | PInt int | PFloat real | PStr string
  | PList "pyval list" | PDict "(string \<times> pyval) list"

fun andThen :: "exn + 'a \<Rightarrow> ('a \<Rightarrow> exn + 'b) \<Rightarrow> exn + 'b" where
  "andThen (Inl e) f = Inl e"
| "andThen (Inr x) f = f x"

fun traverse :: "('a \<Rightarrow> exn + 'b) \<Rightarrow> 'a list \<Rightarrow> exn + 'b list" where
  "traverse f [] = Inr []"
| "traverse f (x # xs) =
     andThen (f x) (\<lambda>y. andThen (traverse f xs) (\<lambda>ys. Inr (y # ys)))"

subsection \<open>\<^verbatim>\<open>str\<close> methods\<close>

text \<open>\<^verbatim>\<open>str.isspace\<close> on the 8-bit characters.\<close>

definition is_space :: "char \<Rightarrow> bool" where
  "is_space c = (let n = (of_char c :: nat) in
     (9 \<le> n \<and> n \<le> 13) \<or> (28 \<le> n \<and> n \<le> 32) \<or> n = 133 \<or> n = 160)"

text \<open>\<^verbatim>\<open>str.lower\<close> on one 8-bit character: A-Z and the accented capitals 192-222
  (but not the multiplication sign 215) move up by 32, which sets the bit of weight 32.\<close>

fun lower_char :: "char \<Rightarrow> char" where
  "lower_char (Char b0 b1 b2 b3 b4 b5 b6 b7) =
     (let n = (of_char (Char b0 b1 b2 b3 b4 b5 b6 b7) :: nat) in
      if (65 \<le> n \<and> n \<le> 90) \<or> (192 \<le> n \<and> n \<le> 222 \<and> n \<noteq> 215)
      then Char b0 b1 b2 b3 b4 True b6 b7 else Char b0 b1 b2 b3 b4 b5 b6 b7)"

definition lower :: "string \<Rightarrow> string" where
  "lower s = map lower_char s"

text \<open>\<^verbatim>\<open>s.split()\<close>: the maximal runs of non-space characters; \<open>cur\<close> is the word
  being read, reversed.\<close>

fun split_aux :: "string \<Rightarrow> string \<Rightarrow> string list" where
  "split_aux cur [] = (if cur = [] then [] else [rev cur])"
| "split_aux cur (c # cs) =
     (if is_space c then (if cur = [] then split_aux [] cs else rev cur # split_aux [] cs)
      else split_aux (c # cur) cs)"

definition split_ws :: "string \<Rightarrow> string list" where
  "split_ws s = split_aux [] s"

text \<open>\<^verbatim>\<open>s.split(',')\<close>: always at least one piece.\<close>

fun split_on :: "char \<Rightarrow> string \<Rightarrow> string list" where
  "split_on d [] = [[]]"
| "split_on d (c # cs) =
     (if c = d then [] # split_on d cs
      else (case split_on d cs of [] \<Rightarrow> [[c]] | w # ws \<Rightarrow> (c # w) # ws))"

definition strip :: "string \<Rightarrow> string" where
  "strip s = rev (dropWhile is_space (rev (dropWhile is_space s)))"

fun join :: "string \<Rightarrow> string list \<Rightarrow> string" where
  "join sep [] = []"
| "join sep [x] = x"
| "join sep (x # y # ys) = x @ sep @ join sep (y # ys)"

text \<open>\<^verbatim>\<open>sub in s\<close>\<close>

fun str_in :: "string \<Rightarrow> string \<Rightarrow> bool" where
  "str_in sub [] = (sub = [])"
| "str_in sub (c # cs) = (prefix sub (c # cs) \<or> str_in sub cs)"

definition startswith :: "string \<Rightarrow> string \<Rightarrow> bool" where
  "startswith s p = prefix p s"

definition endswith :: "string \<Rightarrow> string \<Rightarrow> bool" where
  "endswith s p = suffix p s"

text \<open>\<^verbatim>\<open>any(word in s for word in words)\<close>\<close>

definition any_in :: "string list \<Rightarrow> string \<Rightarrow> bool" where
  "any_in words s = list_ex (\<lambda>word. str_in word s) words"

text \<open>\<^verbatim>\<open>str(n)\<close> for a length.\<close>

fun digits_of :: "nat \<Rightarrow> nat \<Rightarrow> string" where
  "digits_of 0 n = []"
| "digits_of (Suc fuel) n =
     (if n < 10 then [''0123456789'' ! n]
      else digits_of fuel (n div 10) @ [''0123456789'' ! (n mod 10)])"

definition str_of_nat :: "nat \<Rightarrow> string" where
  "str_of_nat n = digits_of (Suc n) n"

definition str_of_int :: "int \<Rightarrow> string" where
  "str_of_int i = (if i < 0 then ''-'' @ str_of_nat (nat (- i)) else str_of_nat (nat i))"

subsection \<open>Operations on values that can raise\<close>

text \<open>\<^verbatim>\<open>v[key]\<close> with a text key, \<^verbatim>\<open>v.get(key, default)\<close>, \<^verbatim>\<open>v[:n]\<close>, iteration
  \<^verbatim>\<open>for x in v\<close>, \<^verbatim>\<open>v[key] = x\<close>, and a value used where only text works.\<close>

fun py_getitem :: "pyval \<Rightarrow> string \<Rightarrow> exn + pyval" where
  "py_getitem (PDict kvs) k = (case map_of kvs k of None \<Rightarrow> Inl KeyError | Some v \<Rightarrow> Inr v)"
| "py_getitem v k = Inl TypeError"

fun py_get :: "pyval \<Rightarrow> string \<Rightarrow> pyval \<Rightarrow> exn + pyval" where
  "py_get (PDict kvs) k d = Inr (case map_of kvs k of None \<Rightarrow> d | Some v \<Rightarrow> v)"
| "py_get v k d = Inl AttributeError"

fun py_slice :: "pyval \<Rightarrow> nat \<Rightarrow> exn + pyval" where
  "py_slice (PStr s) n = Inr (PStr (take n s))"
| "py_slice (PList xs) n = Inr (PList (take n xs))"
| "py_slice v n = Inl TypeError"

fun py_iter :: "pyval \<Rightarrow> exn + pyval list" where
  "py_iter (PList xs) = Inr xs"
| "py_iter (PStr s) = Inr (map (\<lambda>c. PStr [c]) s)"
| "py_iter (PDict kvs) = Inr (map (\<lambda>kv. PStr (fst kv)) kvs)"
| "py_iter v = Inl TypeError"

fun dict_set :: "(string \<times> pyval) list \<Rightarrow> string \<Rightarrow> pyval \<Rightarrow> (string \<times> pyval) list" where
  "dict_set [] k x = [(k, x)]"
| "dict_set (kv # kvs) k x = (if fst kv = k then (k, x) # kvs else kv # dict_set kvs k x)"

fun py_setitem :: "pyval \<Rightarrow> string \<Rightarrow> pyval \<Rightarrow> exn + pyval" where
  "py_setitem (PDict kvs) k x = Inr (PDict (dict_set kvs k x))"
| "py_setitem v k x = Inl TypeError"

fun py_text :: "exn \<Rightarrow> pyval \<Rightarrow> exn + string" where
  "py_text e (PStr s) = Inr s"
| "py_text e v = Inl e"

subsection \<open>Literals outside ASCII\<close>

definition rupee :: string where
  "rupee = [CHR 0xE2, CHR 0x82, CHR 0xB9]"

definition glyph_excited :: string where
  "glyph_excited = [CHR 0xF0, CHR 0x9F, CHR 0x8E, CHR 0x89]"

definition glyph_happy :: string where
  "glyph_happy = [CHR 0xF0, CHR 0x9F, CHR 0x98, CHR 0x8A]"

definition glyph_stressed :: string where
  "glyph_stressed = [CHR 0xF0, CHR 0x9F, CHR 0x98, CHR 0xB0]"

definition glyph_frustrated :: string where
  "glyph_frustrated = [CHR 0xF0, CHR 0x9F, CHR 0x98, CHR 0xA4]"

definition glyph_tired :: string where
  "glyph_tired = [CHR 0xF0, CHR 0x9F, CHR 0x98, CHR 0xB4]"

definition glyph_sad :: string where
  "glyph_sad = [CHR 0xF0, CHR 0x9F, CHR 0x98, CHR 0xA2]"

definition glyph_confused :: string where
  "glyph_confused = [CHR 0xF0, CHR 0x9F, CHR 0xA4, CHR 0x94]"

definition glyph_neutral :: string where
  "glyph_neutral = [CHR 0xF0, CHR 0x9F, CHR 0x98, CHR 0x90]"

definition glyph_shop :: string where
  "glyph_shop = [CHR 0xF0, CHR 0x9F, CHR 0x8F, CHR 0xAA]"

definition glyph_chart :: string where
  "glyph_chart = [CHR 0xF0, CHR 0x9F, CHR 0x93, CHR 0x8A]"

definition glyph_brain :: string where
  "glyph_brain = [CHR 0xF0, CHR 0x9F, CHR 0xA7, CHR 0xA0]"

definition glyph_globe :: string where
  "glyph_globe = [CHR 0xF0, CHR 0x9F, CHR 0x8C, CHR 0x90]"

definition glyph_target :: string where
  "glyph_target = [CHR 0xF0, CHR 0x9F, CHR 0x8E, CHR 0xAF]"

definition glyph_robot :: string where
  "glyph_robot = [CHR 0xF0, CHR 0x9F, CHR 0xA4, CHR 0x96]"

definition glyph_bags :: string where
  "glyph_bags = [CHR 0xF0, CHR 0x9F, CHR 0x9B, CHR 0x8D, CHR 0xEF, CHR 0xB8, CHR 0x8F]"

definition glyph_star :: string where
  "glyph_star = [CHR 0xE2, CHR 0xAD, CHR 0x90]"

definition glyph_box :: string where
  "glyph_box = [CHR 0xF0, CHR 0x9F, CHR 0x93, CHR 0xA6]"

definition glyph_cycle :: string where
  "glyph_cycle = [CHR 0xF0, CHR 0x9F, CHR 0x94, CHR 0x84]"

definition code_fence :: string where
  "code_fence = [CHR 0x60, CHR 0x60, CHR 0x60]"

definition apostrophe :: string where
  "apostrophe = [CHR 0x27]"

section \<open>The environment\<close>

text \<open>
  What the module reaches through libraries is a parameter of the model. Each request to
  the outside (a SQLite connection, an HTTP request, a completion request) is numbered by
  its position in the trace of the run, and the environment answers per position, so the
  same request may be answered differently each time.

  \<^item> \<open>sentiment\<close>: \<^verbatim>\<open>TextBlob(text).sentiment\<close>, polarity and subjectivity, or an exception.
    The program only compares the polarity with the literals 0.3, -0.3, -0.1 and takes its
    absolute value, which are exact on floats; the model reads a float as the real number
    it is written as.
  \<^item> \<open>sqlite_fault\<close>: whether the connection opened at that position raises
    \<^verbatim>\<open>sqlite3.Error\<close> before anything is committed.
  \<^item> \<open>lookup_too_large\<close>, \<open>search_too_large\<close>: whether SQLite refuses the statement
    that \<^verbatim>\<open>get_successful_recommendations\<close>, respectively
    \<^verbatim>\<open>search_business_products\<close>, builds for that many words of the query ("expression
    tree is too large"; with the usual depth limit of 1000, from a little under a
    thousand words on).
  \<^item> \<open>requests_get\<close>: \<^verbatim>\<open>requests.get(url, params=..., timeout=10)\<close>: a response, or the
    exception of a transport error or timeout.
  \<^item> \<open>json_loads\<close>: \<^verbatim>\<open>json.loads\<close> and \<^verbatim>\<open>response.json()\<close>; \<open>None\<close> is a decode error.
  \<^item> \<open>time_time\<close>, \<open>datetime_now\<close>: the clock.
  \<^item> \<open>os_getenv\<close>: \<^verbatim>\<open>os.getenv(name, "")\<close>.
  \<^item> \<open>float_of_str\<close>, \<open>format_amount\<close>: \<^verbatim>\<open>float(s)\<close> and the format \<^verbatim>\<open>{x:,.0f}\<close>.
  \<^item> \<open>re_price\<close>, \<open>re_title\<close>: the regular expressions of the web adapter (the three
    price patterns tried in turn; the title cut at the first bar or dash, and stripped).
\<close>

record response =
  status_code :: nat
  body :: string

record datetime =
  isoformat :: string
  hour :: nat
  month_name :: string
  day_name :: string

record env =
  sentiment :: "string \<Rightarrow> exn + real \<times> real"
  sqlite_fault :: "nat \<Rightarrow> bool"
  lookup_too_large :: "nat \<Rightarrow> bool"
  search_too_large :: "nat \<Rightarrow> bool"
  requests_get :: "nat \<Rightarrow> string \<Rightarrow> (string \<times> pyval) list \<Rightarrow> exn + response"
  json_loads :: "string \<Rightarrow> pyval option"
  time_time :: "nat \<Rightarrow> real"
  datetime_now :: "nat \<Rightarrow> datetime"
  os_getenv :: "string \<Rightarrow> string"
  float_of_str :: "string \<Rightarrow> real option"
  format_amount :: "real \<Rightarrow> string"
  re_price :: "string \<Rightarrow> string option"
  re_title :: "string \<Rightarrow> string"

section \<open>Emotion detection\<close>

text \<open>\<^verbatim>\<open>detect_emotion\<close> (lines 134-164). The subjectivity is read and not used.\<close>

definition detect_emotion :: "env \<Rightarrow> string \<Rightarrow> string \<times> real \<times> string" where
  "detect_emotion env text =
     (case sentiment env text of
        Inl e \<Rightarrow> (''neutral'', 3 / 10, glyph_neutral)
      | Inr (polarity, subjectivity) \<Rightarrow>
          (let text_lower = lower text in
           if polarity > 3 / 10 then
             (if any_in [''excited'', ''thrilled'', ''amazing'', ''fantastic''] text_lower
              then (''excited'', \<bar>polarity\<bar>, glyph_excited)
              else (''happy'', \<bar>polarity\<bar>, glyph_happy))
           else if polarity < - (3 / 10) then
             (if any_in [''stress'', ''overwhelm'', ''pressure'', ''busy''] text_lower
              then (''stressed'', \<bar>polarity\<bar>, glyph_stressed)
              else if any_in [''frustrat'', ''annoyed'', ''irritat'', ''upset''] text_lower
              then (''frustrated'', \<bar>polarity\<bar>, glyph_frustrated)
              else if any_in [''tired'', ''exhausted'', ''worn out''] text_lower
              then (''tired'', \<bar>polarity\<bar>, glyph_tired)
              else (''sad'', \<bar>polarity\<bar>, glyph_sad))
           else if polarity < - (1 / 10) then (''confused'', \<bar>polarity\<bar>, glyph_confused)
           else (''neutral'', 3 / 10, glyph_neutral)))"

section \<open>The SQLite file\<close>

text \<open>
  The tables of \<^verbatim>\<open>init_business_database\<close> (lines 49-116), in row order. A cell of a
  column that the program formats or compares as a number is a \<open>sqlval\<close>, since SQLite
  stores whatever it is given (blobs, which the program never writes, are left out); a
  nullable text column is a \<open>string option\<close>. An
  \<^verbatim>\<open>INTEGER PRIMARY KEY\<close> left out of an \<^verbatim>\<open>INSERT\<close> becomes the largest id of the table
  plus one.
\<close>

datatype sqlval = Null | Integer int | Real real | Text string

record business =
  b_id :: nat
  b_name :: string
  b_email :: string

record business_product =
  bp_id :: nat
  business_id :: nat
  bp_name :: string
  description :: "string option"
  price :: sqlval
  category :: "string option"
  target_emotions :: "string option"
  stock_quantity :: sqlval
  is_active :: bool
  bp_created_date :: "string option"

record feedback =
  fb_id :: nat
  product_name :: string
  user_query :: string
  feedback_type :: string
  recommendation_source :: string
  fb_created_date :: string

record analytics =
  an_id :: nat
  an_user_query :: string
  user_emotion :: string
  recommendation_method :: string
  products_found :: nat
  response_time :: real
  an_created_date :: string

record pattern =
  pat_id :: nat
  query_pattern :: string
  emotion :: string
  successful_categories :: string
  success_count :: int
  last_success :: string

text \<open>The prompts sent to the completion client: the three templates of the source, each
  with the values its f-string fills in.\<close>

datatype prompt =
    Semantic_prompt string nat
  | Context_prompt string string string string nat
  | Fallback_prompt string string

text \<open>One entry per request that leaves the process: the statement a function runs on its
  own SQLite connection, an HTTP request, a completion request.\<close>

datatype call =
    Business_select string string
  | Pattern_select string string
  | Pattern_upsert string string string
  | Feedback_insert string string string string
  | Analytics_insert string string string nat real
  | Http_get string "(string \<times> pyval) list"
  | Generate_content prompt

record world =
  businesses :: "business list"
  business_products :: "business_product list"
  product_feedback :: "feedback list"
  recommendation_analytics :: "analytics list"
  successful_patterns :: "pattern list"
  trace :: "call list"

definition next_id :: "nat list \<Rightarrow> nat" where
  "next_id ids = Suc (fold max ids 0)"

definition called :: "world \<Rightarrow> call \<Rightarrow> world" where
  "called w c = w\<lparr>trace := trace w @ [c]\<rparr>"

subsection \<open>\<^verbatim>\<open>LIKE\<close>\<close>

text \<open>SQLite's \<^verbatim>\<open>LIKE\<close>: \<^verbatim>\<open>%\<close> matches any run of characters, \<^verbatim>\<open>_\<close> any one character,
  and letters A-Z match without regard to case. A \<^verbatim>\<open>NULL\<close> operand makes it not true.\<close>

fun ascii_lower :: "char \<Rightarrow> char" where
  "ascii_lower (Char b0 b1 b2 b3 b4 b5 b6 b7) =
     (let n = (of_char (Char b0 b1 b2 b3 b4 b5 b6 b7) :: nat) in
      if 65 \<le> n \<and> n \<le> 90
      then Char b0 b1 b2 b3 b4 True b6 b7 else Char b0 b1 b2 b3 b4 b5 b6 b7)"

fun like :: "string \<Rightarrow> string \<Rightarrow> bool" where
  "like [] [] = True"
| "like [] (c # cs) = False"
| "like (p # ps) [] = (p = CHR ''%'' \<and> like ps [])"
| "like (p # ps) (c # cs) =
     (if p = CHR ''%'' then like ps (c # cs) \<or> like (p # ps) cs
      else (p = CHR ''_'' \<or> ascii_lower p = ascii_lower c) \<and> like ps cs)"

definition like_null :: "string \<Rightarrow> string option \<Rightarrow> bool" where
  "like_null pat cell = (case cell of None \<Rightarrow> False | Some s \<Rightarrow> like pat s)"

section \<open>The pattern store\<close>

text \<open>
  \<^verbatim>\<open>get_successful_recommendations\<close> (lines 350-381). The statement is built with one
  \<^verbatim>\<open>query_pattern LIKE ?\<close> per word of the query, joined by \<^verbatim>\<open>OR\<close> inside a pair of
  parentheses; with no word the parentheses are empty, which SQLite rejects when it
  prepares the statement, as it rejects a statement with too many of them. \<^verbatim>\<open>ORDER BY success_count DESC, last_success DESC LIMIT 1\<close>
  is the first row that no other row beats; among equal rows the table order decides.
  The returned dict is an \<open>option\<close>: \<open>None\<close> is \<^verbatim>\<open>{}\<close>.
\<close>

record historical =
  categories :: "string list"
  h_success_count :: int

definition beats :: "pattern \<Rightarrow> pattern \<Rightarrow> bool" where
  "beats r best = (success_count r > success_count best \<or>
     (success_count r = success_count best \<and> last_success r > last_success best))"

fun best_row :: "pattern list \<Rightarrow> pattern option" where
  "best_row [] = None"
| "best_row (r # rs) =
     (case best_row rs of
        None \<Rightarrow> Some r
      | Some b \<Rightarrow> if beats b r then Some b else Some r)"

definition get_successful_recommendations_body ::
    "env \<Rightarrow> nat \<Rightarrow> world \<Rightarrow> string \<Rightarrow> string \<Rightarrow> exn + historical option" where
  "get_successful_recommendations_body env n w query emo =
     (if sqlite_fault env n then Inl SqliteError
      else
        let query_words = split_ws (lower query) in
        if query_words = [] \<or> lookup_too_large env (length query_words) then Inl SqliteError
        else
          (case best_row (filter (\<lambda>r. emotion r = emo \<and>
                   list_ex (\<lambda>word. like (''%'' @ word @ ''%'') (query_pattern r)) query_words)
                 (successful_patterns w)) of
             Some result \<Rightarrow>
               Inr (Some \<lparr>categories = split_on (CHR '','') (successful_categories result),
                          h_success_count = success_count result\<rparr>)
           | None \<Rightarrow> Inr None))"

definition get_successful_recommendations ::
    "env \<Rightarrow> world \<Rightarrow> string \<Rightarrow> string \<Rightarrow> world \<times> historical option" where
  "get_successful_recommendations env w query emo =
     (let n = length (trace w);
          w' = called w (Pattern_select query emo) in
      case get_successful_recommendations_body env n w query emo of
        Inl e \<Rightarrow> (w', None)
      | Inr result \<Rightarrow> (w', result))"

text \<open>
  \<^verbatim>\<open>save_successful_pattern\<close> (lines 383-419): a \<^verbatim>\<open>SELECT\<close> for the row of the key, then
  an \<^verbatim>\<open>UPDATE\<close> of the row with the id that was read, or an \<^verbatim>\<open>INSERT\<close>, then the
  commit. An exception anywhere leaves the table as it was and is dropped.
\<close>

definition pattern_key :: "string \<Rightarrow> string" where
  "pattern_key query = join '' '' (take 3 (split_ws (lower query)))"

definition has_key :: "string \<Rightarrow> string \<Rightarrow> string \<Rightarrow> pattern \<Rightarrow> bool" where
  "has_key query_pattern' emo categories_str r =
     (query_pattern r = query_pattern' \<and> emotion r = emo \<and>
      successful_categories r = categories_str)"

definition save_successful_pattern ::
    "env \<Rightarrow> world \<Rightarrow> string \<Rightarrow> string \<Rightarrow> string list \<Rightarrow> world" where
  "save_successful_pattern env w query emo categories' =
     (let n = length (trace w);
          query_pattern' = pattern_key query;
          categories_str = join '','' categories';
          w' = called w (Pattern_upsert query_pattern' emo categories_str) in
      if sqlite_fault env n then w'
      else
        (case find (has_key query_pattern' emo categories_str) (successful_patterns w) of
           Some existing \<Rightarrow>
             w'\<lparr>successful_patterns :=
                  map (\<lambda>r. if pat_id r = pat_id existing
                            then r\<lparr>success_count := success_count r + 1,
                                   last_success := isoformat (datetime_now env n)\<rparr>
                            else r)
                      (successful_patterns w)\<rparr>
         | None \<Rightarrow>
             w'\<lparr>successful_patterns := successful_patterns w @
                  [\<lparr>pat_id = next_id (map pat_id (successful_patterns w)),
                    query_pattern = query_pattern', emotion = emo,
                    successful_categories = categories_str, success_count = 1,
                    last_success = isoformat (datetime_now env n)\<rparr>]\<rparr>))"

section \<open>The feedback recorder\<close>

text \<open>
  \<^verbatim>\<open>save_product_feedback\<close> (lines 670-693): the row is inserted and committed on a
  connection of its own; only then, and only for \<^verbatim>\<open>"perfect_match"\<close>, the emotion is
  detected again from the query and the pattern is saved under the one category
  \<^verbatim>\<open>"general"\<close>. The result is \<^verbatim>\<open>True\<close>, or \<^verbatim>\<open>False\<close> when the insert raised.
\<close>

definition save_product_feedback ::
    "env \<Rightarrow> world \<Rightarrow> string \<Rightarrow> string \<Rightarrow> string \<Rightarrow> string \<Rightarrow> world \<times> bool" where
  "save_product_feedback env w product_name' user_query' feedback_type' source =
     (let n = length (trace w);
          w1 = called w (Feedback_insert product_name' user_query' feedback_type' source) in
      if sqlite_fault env n then (w1, False)
      else
        let w2 = w1\<lparr>product_feedback := product_feedback w @
                   [\<lparr>fb_id = next_id (map fb_id (product_feedback w)),
                     product_name = product_name', user_query = user_query',
                     feedback_type = feedback_type', recommendation_source = source,
                     fb_created_date = isoformat (datetime_now env n)\<rparr>]\<rparr> in
        if feedback_type' = ''perfect_match'' then
          (case detect_emotion env user_query' of
             (emo, confidence, glyph) \<Rightarrow>
               (save_successful_pattern env w2 user_query' emo [''general''], True))
        else (w2, True))"

section \<open>Source adapters\<close>

text \<open>
  Each adapter is \<^verbatim>\<open>try: body except Exception: return []\<close>. The body is a function
  into \<open>exn + pyval list\<close>; a product is a \<open>PDict\<close> with the keys of the source's dict
  literal, in its order. The completion client is \<^verbatim>\<open>client.models.generate_content\<close>
  followed by \<^verbatim>\<open>.text\<close>, which may be \<^verbatim>\<open>None\<close>; a missing client is the one that
  always raises.
\<close>

type_synonym client = "nat \<Rightarrow> prompt \<Rightarrow> exn + string option"

text \<open>\<^verbatim>\<open>response.text.strip()\<close>\<close>

definition response_text :: "string option \<Rightarrow> exn + string" where
  "response_text t = (case t of None \<Rightarrow> Inl AttributeError | Some s \<Rightarrow> Inr (strip s))"

text \<open>\<^verbatim>\<open>convert_usd_to_inr\<close> (lines 119-131); its bare \<^verbatim>\<open>except\<close> makes it total.
  \<^verbatim>\<open>float\<close> of an integer raises when the integer rounds beyond the largest float, that
  is from \<open>2 ^ 1024 - 2 ^ 970\<close> on. The product with 83 is taken in the reals.\<close>

definition is_digit_or_dot :: "char \<Rightarrow> bool" where
  "is_digit_or_dot c = (let n = (of_char c :: nat) in (48 \<le> n \<and> n \<le> 57) \<or> n = 46)"

definition convert_usd_to_inr :: "env \<Rightarrow> pyval \<Rightarrow> string" where
  "convert_usd_to_inr env usd_price =
     (case (case usd_price of
              PStr s \<Rightarrow> (case float_of_str env (filter is_digit_or_dot s) of
                           None \<Rightarrow> Inl ValueError | Some x \<Rightarrow> Inr x)
            | PInt i \<Rightarrow> (if \<bar>i\<bar> < 2 ^ 1024 - 2 ^ 970 then Inr (of_int i)
                         else Inl OverflowError)
            | PFloat x \<Rightarrow> Inr x
            | PBool b \<Rightarrow> Inr (if b then 1 else 0)
            | PNone \<Rightarrow> Inl TypeError
            | PList xs \<Rightarrow> Inl TypeError
            | PDict kvs \<Rightarrow> Inl TypeError) of
        Inl e \<Rightarrow> rupee @ ''Price varies''
      | Inr numeric_value \<Rightarrow> rupee @ format_amount env (numeric_value * 83))"

subsection \<open>HTTP\<close>

text \<open>\<^verbatim>\<open>response.raise_for_status()\<close> raises for the status codes 400 to 599 and for no
  other; \<^verbatim>\<open>response.json()\<close> raises when the body does not decode.\<close>

definition raise_for_status :: "response \<Rightarrow> exn + response" where
  "raise_for_status r =
     (if 400 \<le> status_code r \<and> status_code r < 600 then Inl HTTPError else Inr r)"

definition response_json :: "env \<Rightarrow> response \<Rightarrow> exn + pyval" where
  "response_json env r =
     (case json_loads env (body r) of None \<Rightarrow> Inl JSONDecodeError | Some v \<Rightarrow> Inr v)"

definition http_json :: "env \<Rightarrow> nat \<Rightarrow> string \<Rightarrow> (string \<times> pyval) list \<Rightarrow> exn + pyval" where
  "http_json env n url params =
     andThen (requests_get env n url params) (\<lambda>r.
     andThen (raise_for_status r) (response_json env))"

subsection \<open>Static catalogue A: \<^verbatim>\<open>fetch_products_dummyjson\<close> (lines 422-451)\<close>

definition dummyjson_request :: "string \<Rightarrow> string \<Rightarrow> nat \<Rightarrow> string \<times> (string \<times> pyval) list" where
  "dummyjson_request query category' limit =
     (let base_url = ''https://dummyjson.com/products'' in
      if query \<noteq> [] then
        (base_url @ ''/search'', [(''q'', PStr query), (''limit'', PInt (int limit))])
      else if category' \<noteq> [] then
        (base_url @ ''/category/'' @ category', [(''limit'', PInt (int limit))])
      else (base_url, [(''limit'', PInt (int limit))]))"

definition dummyjson_product :: "env \<Rightarrow> pyval \<Rightarrow> exn + pyval" where
  "dummyjson_product env product =
     andThen (py_setitem product ''source'' (PStr (''DummyJSON Catalog '' @ glyph_box))) (\<lambda>p1.
     andThen (py_get p1 ''price'' (PInt 0)) (\<lambda>usd.
     py_setitem p1 ''price'' (PStr (convert_usd_to_inr env usd))))"

text \<open>When \<^verbatim>\<open>"products"\<close> holds an empty text or an empty dict, the source returns that
  value; every caller only tests it for emptiness or extends a list with it, so the
  model returns the empty list.\<close>

definition fetch_products_dummyjson_body ::
    "env \<Rightarrow> nat \<Rightarrow> string \<Rightarrow> string \<Rightarrow> nat \<Rightarrow> exn + pyval list" where
  "fetch_products_dummyjson_body env n query category' limit =
     (case dummyjson_request query category' limit of
        (url, params) \<Rightarrow>
          andThen (http_json env n url params) (\<lambda>data.
          andThen (py_get data ''products'' (PList [])) (\<lambda>products.
          andThen (py_iter products) (traverse (dummyjson_product env)))))"

definition fetch_products_dummyjson ::
    "env \<Rightarrow> world \<Rightarrow> string \<Rightarrow> string \<Rightarrow> nat \<Rightarrow> world \<times> pyval list" where
  "fetch_products_dummyjson env w query category' limit =
     (let n = length (trace w);
          w' = (case dummyjson_request query category' limit of
                  (url, params) \<Rightarrow> called w (Http_get url params)) in
      case fetch_products_dummyjson_body env n query category' limit of
        Inl e \<Rightarrow> (w', [])
      | Inr products \<Rightarrow> (w', products))"

subsection \<open>Static catalogue B: \<^verbatim>\<open>fetch_products_fakestore\<close> (lines 453-504)\<close>

definition category_mapping :: "(string \<times> string) list" where
  "category_mapping =
     [(''beauty'', ''electronics''),
      (''furniture'', ''men'' @ apostrophe @ ''s clothing''),
      (''laptops'', ''electronics''),
      (''smartphones'', ''electronics''),
      (''mens-shirts'', ''men'' @ apostrophe @ ''s clothing''),
      (''womens-dresses'', ''women'' @ apostrophe @ ''s clothing''),
      (''womens-jewellery'', ''jewelery''),
      (''fragrances'', ''electronics''),
      (''home-decoration'', ''electronics'')]"

definition fakestore_url :: "string \<Rightarrow> string" where
  "fakestore_url category' =
     (if category' \<noteq> [] then
        ''https://fakestoreapi.com/products/category/'' @
          (case map_of category_mapping category' of
             None \<Rightarrow> ''electronics'' | Some mapped_category \<Rightarrow> mapped_category)
      else ''https://fakestoreapi.com/products'')"

definition fakestore_matches :: "string list \<Rightarrow> pyval \<Rightarrow> exn + bool" where
  "fakestore_matches query_words p =
     andThen (py_getitem p ''title'') (\<lambda>t.
     andThen (py_text TypeError t) (\<lambda>title.
     andThen (py_getitem p ''description'') (\<lambda>d.
     andThen (py_text TypeError d) (\<lambda>descr.
     Inr (any_in query_words (lower (title @ '' '' @ descr)))))))"

definition fakestore_filter :: "string \<Rightarrow> pyval \<Rightarrow> exn + pyval" where
  "fakestore_filter query fakestore_products =
     (if query \<noteq> [] then
        andThen (py_iter fakestore_products) (\<lambda>ps.
        andThen (traverse (fakestore_matches (split_ws (lower query))) ps) (\<lambda>keep.
        Inr (PList (map fst (filter snd (zip ps keep))))))
      else Inr fakestore_products)"

definition fakestore_product :: "env \<Rightarrow> pyval \<Rightarrow> exn + pyval" where
  "fakestore_product env product =
     andThen (py_getitem product ''title'') (\<lambda>t.
     andThen (py_slice t 80) (\<lambda>title.
     andThen (py_getitem product ''price'') (\<lambda>usd.
     andThen (py_getitem product ''description'') (\<lambda>d.
     andThen (py_slice d 200) (\<lambda>descr.
     andThen (py_getitem product ''category'') (\<lambda>cat.
     andThen (py_get product ''rating'' (PDict [])) (\<lambda>r.
     andThen (py_get r ''rate'' (PFloat 4)) (\<lambda>rate.
     Inr (PDict
       [(''title'', title),
        (''price'', PStr (convert_usd_to_inr env usd)),
        (''description'', descr),
        (''category'', cat),
        (''rating'', rate),
        (''stock'', PInt 25),
        (''brand'', PStr ''Alternative Store''),
        (''source'', PStr (''Alternative Catalog '' @ glyph_cycle))])))))))))"

definition fetch_products_fakestore_body ::
    "env \<Rightarrow> nat \<Rightarrow> string \<Rightarrow> string \<Rightarrow> nat \<Rightarrow> exn + pyval list" where
  "fetch_products_fakestore_body env n query category' limit =
     andThen (http_json env n (fakestore_url category') []) (\<lambda>fakestore_products.
     andThen (fakestore_filter query fakestore_products) (\<lambda>filtered.
     andThen (py_slice filtered limit) (\<lambda>cut.
     andThen (py_iter cut) (traverse (fakestore_product env)))))"

definition fetch_products_fakestore ::
    "env \<Rightarrow> world \<Rightarrow> string \<Rightarrow> string \<Rightarrow> nat \<Rightarrow> world \<times> pyval list" where
  "fetch_products_fakestore env w query category' limit =
     (let n = length (trace w);
          w' = called w (Http_get (fakestore_url category') []) in
      case fetch_products_fakestore_body env n query category' limit of
        Inl e \<Rightarrow> (w', [])
      | Inr products \<Rightarrow> (w', products))"

subsection \<open>Semantic generation: \<^verbatim>\<open>semantic_product_search\<close> (lines 169-226)\<close>

definition strip_fences :: "string \<Rightarrow> string" where
  "strip_fences json_text =
     (let t1 = (if startswith json_text (code_fence @ ''json'') then drop 7 json_text
                else json_text);
          t2 = (if endswith t1 code_fence then take (length t1 - 3) t1 else t1)
      in strip t2)"

definition semantic_product :: "pyval \<Rightarrow> exn + pyval" where
  "semantic_product item =
     andThen (py_getitem item ''price'') (\<lambda>p.
     andThen (py_text AttributeError p) (\<lambda>price0.
     (let price' = (if \<not> startswith price0 rupee then rupee @ price0 else price0) in
     andThen (py_getitem item ''title'') (\<lambda>t.
     andThen (py_slice t 80) (\<lambda>title.
     andThen (py_getitem item ''description'') (\<lambda>d.
     andThen (py_slice d 200) (\<lambda>descr.
     andThen (py_get item ''category'' (PStr ''General'')) (\<lambda>cat.
     Inr (PDict
       [(''title'', title),
        (''price'', PStr price'),
        (''description'', descr),
        (''category'', cat),
        (''rating'', PStr (glyph_star @ glyph_star @ glyph_star @ glyph_star @ '' AI Curated'')),
        (''stock'', PStr ''Available''),
        (''brand'', PStr ''AI Curated''),
        (''source'', PStr (''Semantic AI Match '' @ glyph_brain))])))))))))"

definition semantic_product_search_body ::
    "env \<Rightarrow> nat \<Rightarrow> string \<Rightarrow> client \<Rightarrow> nat \<Rightarrow> exn + pyval list" where
  "semantic_product_search_body env n query client' limit =
     andThen (client' n (Semantic_prompt query limit)) (\<lambda>text.
     andThen (response_text text) (\<lambda>json_text.
     andThen (case json_loads env (strip_fences json_text) of
                None \<Rightarrow> Inl JSONDecodeError | Some v \<Rightarrow> Inr v) (\<lambda>products_data.
     andThen (py_slice products_data limit) (\<lambda>cut.
     andThen (py_iter cut) (traverse semantic_product)))))"

definition semantic_product_search ::
    "env \<Rightarrow> world \<Rightarrow> string \<Rightarrow> client \<Rightarrow> nat \<Rightarrow> world \<times> pyval list" where
  "semantic_product_search env w query client' limit =
     (let n = length (trace w);
          w' = called w (Generate_content (Semantic_prompt query limit)) in
      case semantic_product_search_body env n query client' limit of
        Inl e \<Rightarrow> (w', [])
      | Inr products \<Rightarrow> (w', products))"

subsection \<open>Web search: \<^verbatim>\<open>search_web_products\<close> (lines 229-285)\<close>

definition web_product :: "env \<Rightarrow> pyval \<Rightarrow> exn + pyval" where
  "web_product env item =
     andThen (py_get item ''snippet'' (PStr [])) (\<lambda>sn.
     andThen (py_text TypeError sn) (\<lambda>snippet.
     (let price' = (case re_price env snippet of
                      Some digits \<Rightarrow> rupee @ digits | None \<Rightarrow> ''See website'') in
     andThen (py_getitem item ''title'') (\<lambda>t.
     andThen (py_slice t 80) (\<lambda>t80.
     andThen (py_text TypeError t80) (\<lambda>title0.
     andThen (py_get item ''link'' (PStr [])) (\<lambda>link.
     Inr (PDict
       [(''title'', PStr (re_title env title0)),
        (''price'', PStr price'),
        (''description'', PStr (take 180 snippet @ ''...'')),
        (''category'', PStr ''Web Search Result''),
        (''rating'', PStr (''See reviews online '' @ glyph_star)),
        (''stock'', PStr ''Check availability''),
        (''brand'', PStr ''Various Indian Retailers''),
        (''source'', PStr (''Real Web Search '' @ glyph_globe)),
        (''link'', link)]))))))))"

definition web_request :: "env \<Rightarrow> string \<Rightarrow> nat \<Rightarrow> string \<times> (string \<times> pyval) list" where
  "web_request env query limit =
     (''https://www.googleapis.com/customsearch/v1'',
      [(''key'', PStr (os_getenv env ''GOOGLE_SEARCH_API_KEY'')),
       (''cx'', PStr (os_getenv env ''GOOGLE_SEARCH_ENGINE_ID'')),
       (''q'', PStr (query @ '' buy online price India rupees store product'')),
       (''num'', PInt (int (min limit 10))),
       (''gl'', PStr ''in''),
       (''hl'', PStr ''en'')])"

definition search_web_products_body :: "env \<Rightarrow> nat \<Rightarrow> string \<Rightarrow> nat \<Rightarrow> exn + pyval list" where
  "search_web_products_body env n query limit =
     (case web_request env query limit of
        (url, params) \<Rightarrow>
          andThen (http_json env n url params) (\<lambda>results.
          andThen (py_get results ''items'' (PList [])) (\<lambda>items.
          andThen (py_iter items) (\<lambda>its.
          andThen (traverse (web_product env) its) (\<lambda>products.
          Inr (take limit products))))))"

definition search_web_products :: "env \<Rightarrow> world \<Rightarrow> string \<Rightarrow> nat \<Rightarrow> world \<times> pyval list" where
  "search_web_products env w query limit =
     (if os_getenv env ''GOOGLE_SEARCH_API_KEY'' = [] \<or> os_getenv env ''GOOGLE_SEARCH_ENGINE_ID'' = []
      then (w, [])
      else
        let n = length (trace w);
            w' = (case web_request env query limit of
                    (url, params) \<Rightarrow> called w (Http_get url params)) in
        case search_web_products_body env n query limit of
          Inl e \<Rightarrow> (w', [])
        | Inr products \<Rightarrow> (w', products))"

subsection \<open>Local business: \<^verbatim>\<open>search_business_products\<close> (lines 506-561)\<close>

text \<open>
  The statement joins each product with the business of its \<^verbatim>\<open>business_id\<close>, keeps
  the active rows, adds the emotion condition when the emotion is not empty and one
  condition per word of the query when there is a word, orders by \<^verbatim>\<open>created_date\<close>
  descending (\<^verbatim>\<open>NULL\<close> last) and keeps six rows. Rows with equal dates stay in table
  order, as SQLite's sorter leaves them: \<open>sort_key\<close> is stable, so sorting the reversed
  list and reversing the result keeps them so.
\<close>

definition business_words :: "string \<Rightarrow> string list" where
  "business_words query = (if query \<noteq> [] then split_ws (lower query) else [])"

definition business_select :: "world \<Rightarrow> string \<Rightarrow> string \<Rightarrow> (business_product \<times> business) list" where
  "business_select w emo query =
     (let joined = concat (map (\<lambda>bp. map (\<lambda>b. (bp, b))
                      (filter (\<lambda>b. b_id b = business_id bp) (businesses w)))
                    (business_products w));
          active = filter (\<lambda>row. is_active (fst row)) joined;
          by_emotion = (if emo \<noteq> [] then
                          filter (\<lambda>row. like_null (''%'' @ emo @ ''%'') (target_emotions (fst row))) active
                        else active);
          query_words = business_words query;
          by_query = (if query_words \<noteq> [] then
                        filter (\<lambda>row. list_ex (\<lambda>word.
                            like (''%'' @ word @ ''%'') (bp_name (fst row)) \<or>
                            like_null (''%'' @ word @ ''%'') (description (fst row)) \<or>
                            like_null (''%'' @ word @ ''%'') (category (fst row))) query_words)
                          by_emotion
                      else by_emotion)
      in take 6 (rev (sort_key (\<lambda>row. bp_created_date (fst row)) (rev by_query))))"

fun py_of_sql :: "sqlval \<Rightarrow> pyval" where
  "py_of_sql Null = PNone"
| "py_of_sql (Integer i) = PInt i"
| "py_of_sql (Real x) = PFloat x"
| "py_of_sql (Text s) = PStr s"

definition py_of_text :: "string option \<Rightarrow> pyval" where
  "py_of_text cell = (case cell of None \<Rightarrow> PNone | Some s \<Rightarrow> PStr s)"

text \<open>\<^verbatim>\<open>price\<close> unless \<^verbatim>\<open>str(price)\<close> starts with the rupee sign, else the format
  \<^verbatim>\<open>{price:,.0f}\<close>, which raises for \<^verbatim>\<open>None\<close> and for text.\<close>

fun business_price :: "env \<Rightarrow> sqlval \<Rightarrow> exn + pyval" where
  "business_price env (Text s) = (if startswith s rupee then Inr (PStr s) else Inl ValueError)"
| "business_price env (Integer i) = Inr (PStr (rupee @ format_amount env (of_int i)))"
| "business_price env (Real x) = Inr (PStr (rupee @ format_amount env x))"
| "business_price env Null = Inl TypeError"

text \<open>\<^verbatim>\<open>row[5] if row[5] > 0 else 'Limited Stock'\<close>\<close>

fun business_stock :: "sqlval \<Rightarrow> exn + pyval" where
  "business_stock (Integer i) = Inr (if i > 0 then PInt i else PStr ''Limited Stock'')"
| "business_stock (Real x) = Inr (if x > 0 then PFloat x else PStr ''Limited Stock'')"
| "business_stock (Text s) = Inl TypeError"
| "business_stock Null = Inl TypeError"

definition business_product_dict :: "env \<Rightarrow> business_product \<times> business \<Rightarrow> exn + pyval" where
  "business_product_dict env row =
     andThen (business_price env (price (fst row))) (\<lambda>price'.
     andThen (business_stock (stock_quantity (fst row))) (\<lambda>stock.
     Inr (PDict
       [(''title'', PStr (bp_name (fst row))),
        (''price'', price'),
        (''description'', py_of_text (description (fst row))),
        (''category'', py_of_text (category (fst row))),
        (''rating'', PStr (''Local Business '' @ glyph_star)),
        (''stock'', stock),
        (''brand'', PStr (b_name (snd row))),
        (''source'', PStr (''Local Business '' @ glyph_shop))])))"

definition search_business_products_body ::
    "env \<Rightarrow> nat \<Rightarrow> world \<Rightarrow> string \<Rightarrow> string \<Rightarrow> exn + pyval list" where
  "search_business_products_body env n w emo query =
     (if sqlite_fault env n \<or> search_too_large env (length (business_words query))
      then Inl SqliteError
      else traverse (business_product_dict env) (business_select w emo query))"

definition search_business_products ::
    "env \<Rightarrow> world \<Rightarrow> string \<Rightarrow> string \<Rightarrow> world \<times> pyval list" where
  "search_business_products env w emo query =
     (let n = length (trace w);
          w' = called w (Business_select emo query) in
      case search_business_products_body env n w emo query of
        Inl e \<Rightarrow> (w', [])
      | Inr products \<Rightarrow> (w', products))"

subsection \<open>Context-aware categories: \<^verbatim>\<open>context_aware_ai_search\<close> (lines 288-347)\<close>

text \<open>The loop over the first two categories; each fetch is a request of its own.\<close>

fun context_fanout :: "env \<Rightarrow> world \<Rightarrow> string list \<Rightarrow> pyval list \<Rightarrow> world \<times> pyval list" where
  "context_fanout env w [] all_products = (w, all_products)"
| "context_fanout env w (category' # rest) all_products =
     (case fetch_products_dummyjson env w [] category' 3 of
        (w1, category_products) \<Rightarrow>
          (let all1 = all_products @ category_products in
           if length all1 < 6 then
             (case fetch_products_fakestore env w1 [] category' 2 of
                (w2, fake_products) \<Rightarrow> context_fanout env w2 rest (all1 @ fake_products))
           else context_fanout env w1 rest all1))"

definition context_aware_ai_search ::
    "env \<Rightarrow> world \<Rightarrow> string \<Rightarrow> string \<Rightarrow> client \<Rightarrow> world \<times> pyval list \<times> string" where
  "context_aware_ai_search env w emo query client' =
     (let n = length (trace w);
          current_time = datetime_now env n;
          context_prompt = Context_prompt query emo (day_name current_time)
                             (month_name current_time) (hour current_time);
          w' = called w (Generate_content context_prompt) in
      case andThen (client' n context_prompt) response_text of
        Inl e \<Rightarrow> (w', [], [])
      | Inr text \<Rightarrow>
          (let categories' = map strip (split_on (CHR '','') text) in
           case context_fanout env w' (take 2 categories') [] of
             (w2, all_products) \<Rightarrow>
               if all_products \<noteq> [] then
                 (w2, take 6 all_products,
                  glyph_target @ '' Context-aware AI chose: '' @ join '', '' categories')
               else (w2, [], [])))"

section \<open>The analytics sink\<close>

text \<open>\<^verbatim>\<open>log_recommendation_analytics\<close> (lines 652-667): one \<^verbatim>\<open>INSERT\<close>; an exception is
  dropped.\<close>

definition log_recommendation_analytics ::
    "env \<Rightarrow> world \<Rightarrow> string \<Rightarrow> string \<Rightarrow> string \<Rightarrow> nat \<Rightarrow> real \<Rightarrow> world" where
  "log_recommendation_analytics env w query emo method found response_time' =
     (let n = length (trace w);
          w' = called w (Analytics_insert query emo method found response_time') in
      if sqlite_fault env n then w'
      else w'\<lparr>recommendation_analytics := recommendation_analytics w @
                [\<lparr>an_id = next_id (map an_id (recommendation_analytics w)),
                  an_user_query = query, user_emotion = emo,
                  recommendation_method = method, products_found = found,
                  response_time = response_time',
                  an_created_date = isoformat (datetime_now env n)\<rparr>]\<rparr>)"

section \<open>The orchestrator\<close>

text \<open>
  \<^verbatim>\<open>neurochat_product_search\<close> (lines 564-650) is one function of seven numbered steps;
  the model names the rest of the function from each step on, last step first.
  \<open>start_time\<close> is the clock read on entry; each return path reads the clock again
  and logs the difference.
\<close>

definition log_and_time ::
    "env \<Rightarrow> world \<Rightarrow> real \<Rightarrow> string \<Rightarrow> string \<Rightarrow> string \<Rightarrow> nat \<Rightarrow> world" where
  "log_and_time env w start_time query emo method found =
     log_recommendation_analytics env w query emo method found
       (time_time env (length (trace w)) - start_time)"

definition neurochat_step7 ::
    "env \<Rightarrow> world \<Rightarrow> real \<Rightarrow> string \<Rightarrow> string \<Rightarrow> world \<times> pyval list \<times> string" where
  "neurochat_step7 env w start_time emo query =
     (case fetch_products_dummyjson env w [] [] 6 of
        (w1, safety_products) \<Rightarrow>
          if safety_products \<noteq> [] then
            (log_and_time env w1 start_time query emo ''Safety Fallback'' (length safety_products),
             safety_products,
             glyph_bags @ '' Here are some general products while I learn your preferences'')
          else
            (log_and_time env w1 start_time query emo ''No Results'' 0,
             [],
             glyph_brain @ '' I'' @ apostrophe @
               ''m still learning! Try describing what you need differently.''))"

definition neurochat_step6 ::
    "env \<Rightarrow> world \<Rightarrow> real \<Rightarrow> string \<Rightarrow> string \<Rightarrow> client \<Rightarrow> world \<times> pyval list \<times> string" where
  "neurochat_step6 env w start_time emo query client' =
     (let n = length (trace w);
          fallback_prompt = Fallback_prompt query emo;
          w0 = called w (Generate_content fallback_prompt) in
      case andThen (client' n fallback_prompt) response_text of
        Inl e \<Rightarrow> neurochat_step7 env w0 start_time emo query
      | Inr text \<Rightarrow>
          (let fallback_category = lower text in
           case fetch_products_dummyjson env w0 [] fallback_category 6 of
             (w1, products_a) \<Rightarrow>
               (case (if products_a = [] then fetch_products_fakestore env w1 [] fallback_category 6
                      else (w1, products_a)) of
                  (w2, fallback_products) \<Rightarrow>
                    if fallback_products \<noteq> [] then
                      (log_and_time env w2 start_time query emo ''AI Fallback''
                         (length fallback_products),
                       fallback_products,
                       glyph_robot @ '' AI chose '' @ fallback_category @
                         '' products for your '' @ emo @ '' mood'')
                    else neurochat_step7 env w2 start_time emo query)))"

definition neurochat_step5 ::
    "env \<Rightarrow> world \<Rightarrow> real \<Rightarrow> string \<Rightarrow> string \<Rightarrow> client \<Rightarrow> world \<times> pyval list \<times> string" where
  "neurochat_step5 env w start_time emo query client' =
     (case context_aware_ai_search env w emo query client' of
        (w1, context_products, context_msg) \<Rightarrow>
          if context_products \<noteq> [] then
            (log_and_time env w1 start_time query emo ''Context AI'' (length context_products),
             context_products, context_msg)
          else neurochat_step6 env w1 start_time emo query client')"

definition neurochat_step4 ::
    "env \<Rightarrow> world \<Rightarrow> real \<Rightarrow> string \<Rightarrow> string \<Rightarrow> client \<Rightarrow> world \<times> pyval list \<times> string" where
  "neurochat_step4 env w start_time emo query client' =
     (if strip query \<noteq> [] then
        (case search_web_products env w query 6 of
           (w1, web_products) \<Rightarrow>
             if web_products \<noteq> [] \<and> length web_products \<ge> 3 then
               (log_and_time env w1 start_time query emo ''Web Search'' (length web_products),
                web_products,
                glyph_globe @ '' Found real products from across the web'')
             else neurochat_step5 env w1 start_time emo query client')
      else neurochat_step5 env w start_time emo query client')"

definition neurochat_step3 ::
    "env \<Rightarrow> world \<Rightarrow> real \<Rightarrow> string \<Rightarrow> string \<Rightarrow> client \<Rightarrow> world \<times> pyval list \<times> string" where
  "neurochat_step3 env w start_time emo query client' =
     (if strip query \<noteq> [] \<and> length (strip query) > 3 then
        (case semantic_product_search env w query client' 6 of
           (w1, semantic_products) \<Rightarrow>
             if semantic_products \<noteq> [] \<and> length semantic_products \<ge> 3 then
               (log_and_time env w1 start_time query emo ''Semantic AI''
                  (length semantic_products),
                semantic_products,
                glyph_brain @ '' AI generated perfect matches for your needs'')
             else neurochat_step4 env w1 start_time emo query client')
      else neurochat_step4 env w start_time emo query client')"

text \<open>The loop of step 2 over the first two categories of the pattern.\<close>

fun pattern_fanout :: "env \<Rightarrow> world \<Rightarrow> string list \<Rightarrow> pyval list \<Rightarrow> world \<times> pyval list" where
  "pattern_fanout env w [] pattern_products = (w, pattern_products)"
| "pattern_fanout env w (category' # rest) pattern_products =
     (case fetch_products_dummyjson env w [] category' 3 of
        (w1, cat_products) \<Rightarrow> pattern_fanout env w1 rest (pattern_products @ cat_products))"

definition neurochat_step2 ::
    "env \<Rightarrow> world \<Rightarrow> real \<Rightarrow> string \<Rightarrow> string \<Rightarrow> client \<Rightarrow> world \<times> pyval list \<times> string" where
  "neurochat_step2 env w start_time emo query client' =
     (case get_successful_recommendations env w query emo of
        (w1, None) \<Rightarrow> neurochat_step3 env w1 start_time emo query client'
      | (w1, Some historical_success) \<Rightarrow>
          if h_success_count historical_success > 2 then
            (case pattern_fanout env w1 (take 2 (categories historical_success)) [] of
               (w2, pattern_products) \<Rightarrow>
                 if pattern_products \<noteq> [] then
                   (log_and_time env w2 start_time query emo ''Historical Pattern''
                      (length pattern_products),
                    take 6 pattern_products,
                    glyph_chart @ '' Using proven successful pattern (used '' @
                      str_of_int (h_success_count historical_success) @ '' times)'')
                 else neurochat_step3 env w2 start_time emo query client')
          else neurochat_step3 env w1 start_time emo query client')"

definition neurochat_product_search ::
    "env \<Rightarrow> world \<Rightarrow> string \<Rightarrow> string \<Rightarrow> client \<Rightarrow> world \<times> pyval list \<times> string" where
  "neurochat_product_search env w emo query client' =
     (let start_time = time_time env (length (trace w)) in
      case search_business_products env w emo query of
        (w1, business_products') \<Rightarrow>
          if business_products' \<noteq> [] then
            (log_and_time env w1 start_time query emo ''Local Business''
               (length business_products'),
             business_products',
             glyph_shop @ '' Found '' @ str_of_nat (length business_products') @
               '' products from caring local businesses'')
          else neurochat_step2 env w1 start_time emo query client')"

section \<open>Traces\<close>

text \<open>The analytics records sent to the sink during a run, oldest first: query, emotion,
  strategy name, product count, elapsed time.\<close>

fun emitted :: "call list \<Rightarrow> (string \<times> string \<times> string \<times> nat \<times> real) list" where
  "emitted [] = []"
| "emitted (Analytics_insert q e m n t # cs) = (q, e, m, n, t) # emitted cs"
| "emitted (c # cs) = emitted cs"

text \<open>\<open>quiet w w'\<close>: \<open>w'\<close> is \<open>w\<close> after some requests, none of them to the analytics
  sink, and with every table as it was.\<close>

definition quiet :: "world \<Rightarrow> world \<Rightarrow> bool" where
  "quiet w w' = (\<exists>evs. w' = w\<lparr>trace := trace w @ evs\<rparr> \<and> emitted evs = [])"

definition later_methods :: "string list" where
  "later_methods = [''Semantic AI'', ''Web Search'', ''Context AI'', ''AI Fallback'',
                    ''Safety Fallback'', ''No Results'']"

text \<open>\<open>returns_logged\<close>: the result \<open>r\<close> was returned right after one call of
  \<^verbatim>\<open>log_recommendation_analytics\<close>, the only one since \<open>w\<close>.\<close>

definition returns_logged ::
    "env \<Rightarrow> world \<Rightarrow> real \<Rightarrow> string \<Rightarrow> string \<Rightarrow> string list \<Rightarrow>
       world \<times> pyval list \<times> string \<Rightarrow> bool" where
  "returns_logged env w st q e ms r =
     (\<exists>w1 m found. quiet w w1 \<and> fst r = log_and_time env w1 st q e m found \<and>
        m \<in> set ms \<and> length (fst (snd r)) \<le> found \<and>
        (m = ''Historical Pattern'' \<or> found = length (fst (snd r))) \<and>
        ((fst (snd r) = []) = (m = ''No Results'')))"

section \<open>A small marketplace\<close>

text \<open>Concrete environments and a concrete database, on which the theorems below are
  run. The catalogue answers every request with one product; the scorer fails on one
  text and sits on the two thresholds for two others.\<close>

definition demo_env :: env where
  "demo_env =
     \<lparr>sentiment = (\<lambda>t. if t = ''crash'' then Inl ValueError
                       else if t = ''edge'' then Inr (3 / 10, 1 / 2)
                       else if t = ''low edge'' then Inr (- (3 / 10), 1 / 2)
                       else Inr (1 / 2, 1 / 2)),
      sqlite_fault = (\<lambda>n. False),
      lookup_too_large = (\<lambda>k. 999 \<le> k),
      search_too_large = (\<lambda>k. 995 \<le> k),
      requests_get = (\<lambda>n url params. Inr \<lparr>status_code = 200, body = ''P''\<rparr>),
      json_loads = (\<lambda>s. if s = ''P''
                        then Some (PDict [(''products'',
                               PList [PDict [(''title'', PStr ''Desk''), (''price'', PInt 10)]])])
                        else None),
      time_time = (\<lambda>n. real n),
      datetime_now = (\<lambda>n. \<lparr>isoformat = ''2025-01-0'' @ str_of_nat n, hour = 9,
                             month_name = ''January'', day_name = ''Monday''\<rparr>),
      os_getenv = (\<lambda>name. []),
      float_of_str = (\<lambda>s. None),
      format_amount = (\<lambda>x. ''250''),
      re_price = (\<lambda>s. None),
      re_title = (\<lambda>s. s)\<rparr>"

definition no_client :: client where
  "no_client = (\<lambda>n p. Inl AttributeError)"

definition demo_shop :: world where
  "demo_shop =
     \<lparr>businesses = [\<lparr>b_id = 1, b_name = ''Calm Corner'', b_email = ''owner@calm.example''\<rparr>],
      business_products =
        [\<lparr>bp_id = 1, business_id = 1, bp_name = ''Lavender Candle'',
          description = Some ''A calming candle'', price = Real 250,
          category = Some ''home-decoration'', target_emotions = Some ''stressed,tired'',
          stock_quantity = Integer 4, is_active = True,
          bp_created_date = Some ''2025-01-01''\<rparr>],
      product_feedback = [],
      recommendation_analytics = [],
      successful_patterns =
        [\<lparr>pat_id = 1, query_pattern = ''i need a'', emotion = ''happy'',
          successful_categories = ''furniture,beauty,laptops'', success_count = 2,
          last_success = ''2025-01-01''\<rparr>],
      trace = []\<rparr>"

text \<open>The same shop once the pattern has succeeded a third time.\<close>

definition demo_shop3 :: world where
  "demo_shop3 = demo_shop\<lparr>successful_patterns :=
     map (\<lambda>r. r\<lparr>success_count := 3\<rparr>) (successful_patterns demo_shop)\<rparr>"

definition desk :: pyval where
  "desk = PDict [(''title'', PStr ''Desk''),
                 (''price'', PStr (rupee @ ''250'')),
                 (''source'', PStr (''DummyJSON Catalog '' @ glyph_box))]"

section \<open>Failures of a source\<close>











section \<open>The fallback chain of the specification\<close>

text \<open>
  The specification (4.4) describes the orchestrator as a machine of seven states tried
  strictly in order; the machine halts at the first state whose termination condition is
  met, and the terminal transition sends one analytics record that carries the name of
  that state. The definitions of this section follow those words, to be compared with
  \<open>neurochat_product_search\<close>. A state is its strategy name and its attempt: the requests
  it makes and, when its termination condition is met, the products to return, the
  count to record and the rationale. \<open>first_hit\<close> tries the states in order;
  \<open>run_chain\<close> sends the record of the state that halted the machine, or of
  "No Results" when none did.
\<close>

type_synonym hit = "pyval list \<times> nat \<times> string"

type_synonym state = "string \<times> (world \<Rightarrow> world \<times> hit option)"

fun first_hit :: "state list \<Rightarrow> world \<Rightarrow> world \<times> (string \<times> hit) option" where
  "first_hit [] w = (w, None)"
| "first_hit (s # rest) w =
     (case snd s w of
        (w1, Some h) \<Rightarrow> (w1, Some (fst s, h))
      | (w1, None) \<Rightarrow> first_hit rest w1)"

definition still_learning :: string where
  "still_learning = glyph_brain @ '' I'' @ apostrophe @
     ''m still learning! Try describing what you need differently.''"

fun outcome :: "(string \<times> hit) option \<Rightarrow> string \<times> pyval list \<times> nat \<times> string" where
  "outcome None = (''No Results'', [], 0, still_learning)"
| "outcome (Some (name, products, found, rationale)) = (name, products, found, rationale)"

definition run_from ::
    "env \<Rightarrow> real \<Rightarrow> string \<Rightarrow> string \<Rightarrow> state list \<Rightarrow> world \<Rightarrow> world \<times> pyval list \<times> string" where
  "run_from env start_time query emo chain w =
     (case first_hit chain w of
        (w1, h) \<Rightarrow>
          (case outcome h of
             (name, products, found, rationale) \<Rightarrow>
               (log_and_time env w1 start_time query emo name found, products, rationale)))"

definition run_chain ::
    "env \<Rightarrow> string \<Rightarrow> string \<Rightarrow> state list \<Rightarrow> world \<Rightarrow> world \<times> pyval list \<times> string" where
  "run_chain env query emo chain w =
     run_from env (time_time env (length (trace w))) query emo chain w"

text \<open>1. LocalBusiness: terminate with the adapter's results if non-empty.\<close>

definition local_business_state :: "env \<Rightarrow> string \<Rightarrow> string \<Rightarrow> state" where
  "local_business_state env emo query =
     (''Local Business'',
      \<lambda>w. case search_business_products env w emo query of
             (w1, ps) \<Rightarrow>
               (w1, if ps \<noteq> [] then
                      Some (ps, length ps,
                            glyph_shop @ '' Found '' @ str_of_nat (length ps) @
                              '' products from caring local businesses'')
                    else None))"

text \<open>2. HistoricalPattern: look the pattern up; if found with a success count above 2,
  fan out to catalogue A for its first two categories; terminate if the combined results
  are non-empty, capped at six. The count recorded is that of the combined results.\<close>

definition historical_pattern_state :: "env \<Rightarrow> string \<Rightarrow> string \<Rightarrow> state" where
  "historical_pattern_state env emo query =
     (''Historical Pattern'',
      \<lambda>w. case get_successful_recommendations env w query emo of
             (w1, None) \<Rightarrow> (w1, None)
           | (w1, Some h) \<Rightarrow>
               if 2 < h_success_count h then
                 (case pattern_fanout env w1 (take 2 (categories h)) [] of
                    (w2, pp) \<Rightarrow>
                      (w2, if pp \<noteq> [] then
                             Some (take 6 pp, length pp,
                                   glyph_chart @ '' Using proven successful pattern (used '' @
                                     str_of_int (h_success_count h) @ '' times)'')
                           else None))
               else (w1, None))"

text \<open>3. SemanticAI: only attempted if the trimmed query is longer than 3; terminate on
  three products or more.\<close>

definition semantic_ai_state :: "env \<Rightarrow> string \<Rightarrow> client \<Rightarrow> state" where
  "semantic_ai_state env query client' =
     (''Semantic AI'',
      \<lambda>w. if 3 < length (strip query) then
             (case semantic_product_search env w query client' 6 of
                (w1, ps) \<Rightarrow>
                  (w1, if 3 \<le> length ps then
                         Some (ps, length ps,
                               glyph_brain @ '' AI generated perfect matches for your needs'')
                       else None))
           else (w, None))"

text \<open>4. WebSearch: only attempted if the trimmed query is non-empty; terminate on three
  products or more.\<close>

definition web_search_state :: "env \<Rightarrow> string \<Rightarrow> state" where
  "web_search_state env query =
     (''Web Search'',
      \<lambda>w. if strip query \<noteq> [] then
             (case search_web_products env w query 6 of
                (w1, ps) \<Rightarrow>
                  (w1, if 3 \<le> length ps then
                         Some (ps, length ps,
                               glyph_globe @ '' Found real products from across the web'')
                       else None))
           else (w, None))"

text \<open>5. ContextAI: always attempted; terminate if it returns any product.\<close>

definition context_ai_state :: "env \<Rightarrow> string \<Rightarrow> string \<Rightarrow> client \<Rightarrow> state" where
  "context_ai_state env emo query client' =
     (''Context AI'',
      \<lambda>w. case context_aware_ai_search env w emo query client' of
             (w1, ps, rationale) \<Rightarrow>
               (w1, if ps \<noteq> [] then Some (ps, length ps, rationale) else None))"

text \<open>6. AIFallback: the completion service chooses one category; catalogue A for that
  category, catalogue B if A is empty; terminate if non-empty. A completion failure
  leaves the state without a result.\<close>

definition ai_fallback_state :: "env \<Rightarrow> string \<Rightarrow> string \<Rightarrow> client \<Rightarrow> state" where
  "ai_fallback_state env emo query client' =
     (''AI Fallback'',
      \<lambda>w. case andThen (client' (length (trace w)) (Fallback_prompt query emo)) response_text of
             Inl e \<Rightarrow> (called w (Generate_content (Fallback_prompt query emo)), None)
           | Inr reply \<Rightarrow>
               (case fetch_products_dummyjson env
                       (called w (Generate_content (Fallback_prompt query emo)))
                       [] (lower reply) 6 of
                  (w1, pa) \<Rightarrow>
                    (case (if pa = [] then fetch_products_fakestore env w1 [] (lower reply) 6
                           else (w1, pa)) of
                       (w2, ps) \<Rightarrow>
                         (w2, if ps \<noteq> [] then
                                Some (ps, length ps,
                                      glyph_robot @ '' AI chose '' @ lower reply @
                                        '' products for your '' @ emo @ '' mood'')
                              else None))))"

text \<open>7. SafetyFallback: catalogue A with no filter; terminate if non-empty. If it is
  empty too the chain is exhausted, which \<open>run_chain\<close> records as "No Results".\<close>

definition safety_fallback_state :: "env \<Rightarrow> state" where
  "safety_fallback_state env =
     (''Safety Fallback'',
      \<lambda>w. case fetch_products_dummyjson env w [] [] 6 of
             (w1, ps) \<Rightarrow>
               (w1, if ps \<noteq> [] then
                      Some (ps, length ps,
                            glyph_bags @
                              '' Here are some general products while I learn your preferences'')
                    else None))"

definition fallback_chain :: "env \<Rightarrow> string \<Rightarrow> string \<Rightarrow> client \<Rightarrow> state list" where
  "fallback_chain env emo query client' =
     [local_business_state env emo query,
      historical_pattern_state env emo query,
      semantic_ai_state env query client',
      web_search_state env query,
      context_ai_state env emo query client',
      ai_fallback_state env emo query client',
      safety_fallback_state env]"

text \<open>A catalogue that answers four products to every request, and an environment in
  which every source is empty: the catalogues answer a page that is not JSON.\<close>

definition big_env :: env where
  "big_env = demo_env
     \<lparr>json_loads := (\<lambda>s. if s = ''P''
                        then Some (PDict [(''products'',
                               PList (replicate 4
                                 (PDict [(''title'', PStr ''Desk''), (''price'', PInt 10)])))])
                        else None)\<rparr>"

definition barren_env :: env where
  "barren_env = demo_env
     \<lparr>requests_get := (\<lambda>n url params. Inr \<lparr>status_code = 200, body = ''<html>''\<rparr>),
      os_getenv := (\<lambda>name. ''key'')\<rparr>"

section \<open>The two statements of the pattern upsert\<close>










section \<open>Properties\<close>

subsection \<open>Requests made by the adapters and the steps\<close>

lemma emitted_append: "emitted (xs @ ys) = emitted xs @ emitted ys"
  by (induction xs rule: emitted.induct) auto

lemma quiet_refl: "quiet w w"
  unfolding quiet_def by (rule exI [of _ "[]"]) simp

lemma quiet_trans: "quiet w w1 \<Longrightarrow> quiet w1 w2 \<Longrightarrow> quiet w w2"
  unfolding quiet_def
proof -
  assume "\<exists>evs. w1 = w\<lparr>trace := trace w @ evs\<rparr> \<and> emitted evs = []"
     and "\<exists>evs. w2 = w1\<lparr>trace := trace w1 @ evs\<rparr> \<and> emitted evs = []"
  then obtain a b where a: "w1 = w\<lparr>trace := trace w @ a\<rparr>" "emitted a = []"
    and b: "w2 = w1\<lparr>trace := trace w1 @ b\<rparr>" "emitted b = []" by blast
  have "w2 = w\<lparr>trace := trace w @ (a @ b)\<rparr>" using a b by simp
  moreover have "emitted (a @ b) = []" using a b by (simp add: emitted_append)
  ultimately show "\<exists>evs. w2 = w\<lparr>trace := trace w @ evs\<rparr> \<and> emitted evs = []" by blast
qed

lemma quiet_called: "emitted [c] = [] \<Longrightarrow> quiet w (called w c)"
  unfolding quiet_def called_def by (rule exI [of _ "[c]"]) simp

lemma dummyjson_world:
  "fst (fetch_products_dummyjson env w query cat limit) =
     called w (Http_get (fst (dummyjson_request query cat limit)) (snd (dummyjson_request query cat limit)))"
  by (simp add: fetch_products_dummyjson_def Let_def split: sum.splits prod.splits)

lemma dummyjson_quiet: "quiet w (fst (fetch_products_dummyjson env w query cat limit))"
  by (simp add: dummyjson_world quiet_called)

lemma fakestore_world:
  "fst (fetch_products_fakestore env w query cat limit) = called w (Http_get (fakestore_url cat) [])"
  by (simp add: fetch_products_fakestore_def Let_def split: sum.splits prod.splits)

lemma fakestore_quiet: "quiet w (fst (fetch_products_fakestore env w query cat limit))"
  by (simp add: fakestore_world quiet_called)

lemma semantic_world:
  "fst (semantic_product_search env w query c limit) = called w (Generate_content (Semantic_prompt query limit))"
  by (simp add: semantic_product_search_def Let_def split: sum.splits prod.splits)

lemma semantic_quiet: "quiet w (fst (semantic_product_search env w query c limit))"
  by (simp add: semantic_world quiet_called)

lemma web_quiet: "quiet w (fst (search_web_products env w query limit))"
  by (auto simp: search_web_products_def Let_def quiet_called quiet_refl split: sum.splits prod.splits)

lemma business_world:
  "fst (search_business_products env w emo query) = called w (Business_select emo query)"
  by (simp add: search_business_products_def Let_def split: sum.splits prod.splits)

lemma business_quiet: "quiet w (fst (search_business_products env w emo query))"
  by (simp add: business_world quiet_called)

lemma lookup_world:
  "fst (get_successful_recommendations env w query emo) = called w (Pattern_select query emo)"
  by (simp add: get_successful_recommendations_def Let_def split: sum.splits prod.splits)

lemma lookup_quiet: "quiet w (fst (get_successful_recommendations env w query emo))"
  by (simp add: lookup_world quiet_called)

lemma pattern_fanout_quiet: "quiet w (fst (pattern_fanout env w cats acc))"
proof (induction cats arbitrary: w acc)
  case Nil show ?case by (simp add: quiet_refl)
next
  case (Cons c cs)
  obtain w1 ps where f: "fetch_products_dummyjson env w [] c 3 = (w1, ps)" by fastforce
  have "quiet w w1" using dummyjson_quiet [of w env "[]" c 3] f by simp
  moreover have "quiet w1 (fst (pattern_fanout env w1 cs (acc @ ps)))" by (rule Cons.IH)
  ultimately show ?case using f by (simp add: quiet_trans)
qed

lemma context_fanout_quiet: "quiet w (fst (context_fanout env w cats acc))"
proof (induction cats arbitrary: w acc)
  case Nil show ?case by (simp add: quiet_refl)
next
  case (Cons c cs)
  obtain w1 ps where f: "fetch_products_dummyjson env w [] c 3 = (w1, ps)" by fastforce
  obtain w2 qs where g: "fetch_products_fakestore env w1 [] c 2 = (w2, qs)" by fastforce
  have q1: "quiet w w1" using dummyjson_quiet [of w env "[]" c 3] f by simp
  have q2: "quiet w1 w2" using fakestore_quiet [of w1 env "[]" c 2] g by simp
  show ?case
  proof (cases "length (acc @ ps) < 6")
    case True
    have "quiet w2 (fst (context_fanout env w2 cs ((acc @ ps) @ qs)))" by (rule Cons.IH)
    with q1 q2 have "quiet w (fst (context_fanout env w2 cs ((acc @ ps) @ qs)))"
      by (blast intro: quiet_trans)
    then show ?thesis using f g True by simp
  next
    case False
    have "quiet w1 (fst (context_fanout env w1 cs (acc @ ps)))" by (rule Cons.IH)
    with q1 have "quiet w (fst (context_fanout env w1 cs (acc @ ps)))"
      by (blast intro: quiet_trans)
    then show ?thesis using f False by simp
  qed
qed

lemma context_quiet: "quiet w (fst (context_aware_ai_search env w emo query c))"
proof -
  let ?n = "length (trace w)"
  let ?p = "Context_prompt query emo (day_name (datetime_now env ?n))
              (month_name (datetime_now env ?n)) (hour (datetime_now env ?n))"
  let ?w' = "called w (Generate_content ?p)"
  have q0: "quiet w ?w'" by (simp add: quiet_called)
  show ?thesis
  proof (cases "andThen (c ?n ?p) response_text")
    case (Inl e)
    then show ?thesis using q0 by (simp add: context_aware_ai_search_def Let_def)
  next
    case (Inr reply)
    let ?cats = "take 2 (map strip (split_on (CHR '','') reply))"
    obtain w2 ps where f: "context_fanout env ?w' ?cats [] = (w2, ps)" by fastforce
    have "quiet ?w' w2" using context_fanout_quiet [of ?w' env ?cats "[]"] f by simp
    with q0 have "quiet w w2" by (rule quiet_trans)
    then show ?thesis using Inr f by (simp add: context_aware_ai_search_def Let_def)
  qed
qed

lemma returns_logged_quiet:
  "quiet w w0 \<Longrightarrow> returns_logged env w0 st q e ms r \<Longrightarrow> returns_logged env w st q e ms r"
  unfolding returns_logged_def by (blast intro: quiet_trans)

lemma returns_logged_mono:
  "returns_logged env w st q e ms r \<Longrightarrow> set ms \<subseteq> set ms' \<Longrightarrow> returns_logged env w st q e ms' r"
  unfolding returns_logged_def by blast

lemma returns_logged_direct:
  "quiet w w1 \<Longrightarrow> m \<in> set ms \<Longrightarrow> found = length ps \<Longrightarrow> (ps = []) = (m = ''No Results'') \<Longrightarrow>
   returns_logged env w st q e ms (log_and_time env w1 st q e m found, ps, msg)"
  unfolding returns_logged_def by fastforce

lemma step7_logged: "returns_logged env w st q e later_methods (neurochat_step7 env w st e q)"
proof -
  obtain w1 ps where f: "fetch_products_dummyjson env w [] [] 6 = (w1, ps)" by fastforce
  have q1: "quiet w w1" using dummyjson_quiet [of w env "[]" "[]" 6] f by simp
  show ?thesis
  proof (cases "ps = []")
    case True
    have "returns_logged env w st q e later_methods
            (log_and_time env w1 st q e ''No Results'' 0, [],
             glyph_brain @ '' I'' @ apostrophe @
               ''m still learning! Try describing what you need differently.'')"
      by (rule returns_logged_direct [OF q1]) (simp_all add: later_methods_def)
    then show ?thesis using f True by (simp add: neurochat_step7_def)
  next
    case False
    have "returns_logged env w st q e later_methods
            (log_and_time env w1 st q e ''Safety Fallback'' (length ps), ps,
             glyph_bags @ '' Here are some general products while I learn your preferences'')"
      by (rule returns_logged_direct [OF q1]) (use False in \<open>simp_all add: later_methods_def\<close>)
    then show ?thesis using f False by (simp add: neurochat_step7_def)
  qed
qed

lemma step6_logged: "returns_logged env w st q e later_methods (neurochat_step6 env w st e q c)"
proof -
  let ?w0 = "called w (Generate_content (Fallback_prompt q e))"
  have q0: "quiet w ?w0" by (simp add: quiet_called)
  show ?thesis
  proof (cases "andThen (c (length (trace w)) (Fallback_prompt q e)) response_text")
    case (Inl x)
    have "returns_logged env w st q e later_methods (neurochat_step7 env ?w0 st e q)"
      by (rule returns_logged_quiet [OF q0 step7_logged])
    then show ?thesis using Inl by (simp add: neurochat_step6_def Let_def)
  next
    case (Inr reply)
    obtain w1 pa where f: "fetch_products_dummyjson env ?w0 [] (lower reply) 6 = (w1, pa)"
      by fastforce
    have q1: "quiet w w1"
      using dummyjson_quiet [of ?w0 env "[]" "lower reply" 6] f q0 by (auto intro: quiet_trans)
    obtain w2 fp where g: "(if pa = [] then fetch_products_fakestore env w1 [] (lower reply) 6
                            else (w1, pa)) = (w2, fp)" by fastforce
    have q2: "quiet w w2"
    proof (cases "pa = []")
      case True
      then show ?thesis
        using fakestore_quiet [of w1 env "[]" "lower reply" 6] g q1 by (auto intro: quiet_trans)
    next
      case False
      then show ?thesis using g q1 by simp
    qed
    show ?thesis
    proof (cases "fp = []")
      case True
      have "returns_logged env w st q e later_methods (neurochat_step7 env w2 st e q)"
        by (rule returns_logged_quiet [OF q2 step7_logged])
      then show ?thesis using Inr f g True by (simp add: neurochat_step6_def Let_def)
    next
      case False
      have "returns_logged env w st q e later_methods
              (log_and_time env w2 st q e ''AI Fallback'' (length fp), fp,
               glyph_robot @ '' AI chose '' @ lower reply @ '' products for your '' @ e @ '' mood'')"
        by (rule returns_logged_direct [OF q2]) (use False in \<open>simp_all add: later_methods_def\<close>)
      then show ?thesis using Inr f g False by (simp add: neurochat_step6_def Let_def)
    qed
  qed
qed

lemma step5_logged: "returns_logged env w st q e later_methods (neurochat_step5 env w st e q c)"
proof -
  obtain w1 ps msg where f: "context_aware_ai_search env w e q c = (w1, ps, msg)"
    by (metis prod_cases3)
  have q1: "quiet w w1" using context_quiet [of w env e q c] f by simp
  show ?thesis
  proof (cases "ps = []")
    case True
    have "returns_logged env w st q e later_methods (neurochat_step6 env w1 st e q c)"
      by (rule returns_logged_quiet [OF q1 step6_logged])
    then show ?thesis using f True by (simp add: neurochat_step5_def)
  next
    case False
    have "returns_logged env w st q e later_methods
            (log_and_time env w1 st q e ''Context AI'' (length ps), ps, msg)"
      by (rule returns_logged_direct [OF q1]) (use False in \<open>simp_all add: later_methods_def\<close>)
    then show ?thesis using f False by (simp add: neurochat_step5_def)
  qed
qed

lemma step4_logged: "returns_logged env w st q e later_methods (neurochat_step4 env w st e q c)"
proof (cases "strip q \<noteq> []")
  case False
  then show ?thesis using step5_logged [of env w st q e c] by (simp add: neurochat_step4_def)
next
  case True
  obtain w1 ps where f: "search_web_products env w q 6 = (w1, ps)" by fastforce
  have q1: "quiet w w1" using web_quiet [of w env q 6] f by simp
  show ?thesis
  proof (cases "ps \<noteq> [] \<and> length ps \<ge> 3")
    case False
    have "returns_logged env w st q e later_methods (neurochat_step5 env w1 st e q c)"
      by (rule returns_logged_quiet [OF q1 step5_logged])
    then show ?thesis using f True False by (auto simp: neurochat_step4_def)
  next
    case yes: True
    have "returns_logged env w st q e later_methods
            (log_and_time env w1 st q e ''Web Search'' (length ps), ps,
             glyph_globe @ '' Found real products from across the web'')"
      by (rule returns_logged_direct [OF q1]) (use yes in \<open>simp_all add: later_methods_def\<close>)
    then show ?thesis using f True yes by (simp add: neurochat_step4_def)
  qed
qed

lemma step3_logged: "returns_logged env w st q e later_methods (neurochat_step3 env w st e q c)"
proof (cases "strip q \<noteq> [] \<and> length (strip q) > 3")
  case False
  then show ?thesis using step4_logged [of env w st q e c] by (auto simp: neurochat_step3_def)
next
  case True
  obtain w1 ps where f: "semantic_product_search env w q c 6 = (w1, ps)" by fastforce
  have q1: "quiet w w1" using semantic_quiet [of w env q c 6] f by simp
  show ?thesis
  proof (cases "ps \<noteq> [] \<and> length ps \<ge> 3")
    case False
    have "returns_logged env w st q e later_methods (neurochat_step4 env w1 st e q c)"
      by (rule returns_logged_quiet [OF q1 step4_logged])
    then show ?thesis using f True False by (auto simp: neurochat_step3_def)
  next
    case yes: True
    have "returns_logged env w st q e later_methods
            (log_and_time env w1 st q e ''Semantic AI'' (length ps), ps,
             glyph_brain @ '' AI generated perfect matches for your needs'')"
      by (rule returns_logged_direct [OF q1]) (use yes in \<open>simp_all add: later_methods_def\<close>)
    then show ?thesis using f True yes by (simp add: neurochat_step3_def)
  qed
qed

lemma log_and_time_trace:
  "trace (log_and_time env w1 st q e m found) =
     trace w1 @ [Analytics_insert q e m found (time_time env (length (trace w1)) - st)]"
  by (simp add: log_and_time_def log_recommendation_analytics_def Let_def called_def)

lemma log_and_time_table:
  "recommendation_analytics (log_and_time env w1 st q e m found) =
     (if sqlite_fault env (length (trace w1)) then recommendation_analytics w1
      else recommendation_analytics w1 @
        [\<lparr>an_id = next_id (map an_id (recommendation_analytics w1)),
          an_user_query = q, user_emotion = e, recommendation_method = m,
          products_found = found,
          response_time = time_time env (length (trace w1)) - st,
          an_created_date = isoformat (datetime_now env (length (trace w1)))\<rparr>])"
  by (simp add: log_and_time_def log_recommendation_analytics_def Let_def called_def)

lemma quiet_table: "quiet w w1 \<Longrightarrow> recommendation_analytics w1 = recommendation_analytics w"
  unfolding quiet_def by auto

lemma quiet_emitted: "quiet w w1 \<Longrightarrow> emitted (trace w1) = emitted (trace w)"
  unfolding quiet_def by (auto simp: emitted_append)

lemma returns_logged_emitted:
  assumes "returns_logged env w st q e ms r"
  shows "\<exists>m found. m \<in> set ms \<and>
           emitted (trace (fst r)) =
             emitted (trace w) @
               [(q, e, m, found, time_time env (length (trace (fst r)) - Suc 0) - st)] \<and>
           length (fst (snd r)) \<le> found \<and>
           (m = ''Historical Pattern'' \<or> found = length (fst (snd r))) \<and>
           ((fst (snd r) = []) = (m = ''No Results'')) \<and>
           (recommendation_analytics (fst r) = recommendation_analytics w \<or>
            (\<exists>row. recommendation_analytics (fst r) = recommendation_analytics w @ [row] \<and>
               an_user_query row = q \<and> user_emotion row = e \<and>
               recommendation_method row = m \<and> products_found row = found \<and>
               response_time row = time_time env (length (trace (fst r)) - Suc 0) - st))"
proof -
  from assms obtain w1 m found where
    q: "quiet w w1" and r: "fst r = log_and_time env w1 st q e m found" and
    m: "m \<in> set ms" and f: "length (fst (snd r)) \<le> found"
       "m = ''Historical Pattern'' \<or> found = length (fst (snd r))"
       "(fst (snd r) = []) = (m = ''No Results'')"
    unfolding returns_logged_def by blast
  have len: "length (trace (fst r)) - Suc 0 = length (trace w1)"
    by (simp add: r log_and_time_trace)
  have em: "emitted (trace (fst r)) =
          emitted (trace w) @ [(q, e, m, found, time_time env (length (trace (fst r)) - Suc 0) - st)]"
    unfolding len by (simp add: r log_and_time_trace emitted_append quiet_emitted [OF q])
  have tab: "recommendation_analytics (fst r) = recommendation_analytics w \<or>
            (\<exists>row. recommendation_analytics (fst r) = recommendation_analytics w @ [row] \<and>
               an_user_query row = q \<and> user_emotion row = e \<and>
               recommendation_method row = m \<and> products_found row = found \<and>
               response_time row = time_time env (length (trace (fst r)) - Suc 0) - st)"
    unfolding len by (simp add: r log_and_time_table quiet_table [OF q])
  from m em f tab show ?thesis by blast
qed

lemma step2_cases:
  "neurochat_step2 env w st e q c =
     (case snd (get_successful_recommendations env w q e) of
        None \<Rightarrow> neurochat_step3 env (called w (Pattern_select q e)) st e q c
      | Some h \<Rightarrow>
          if 2 < h_success_count h \<and>
             snd (pattern_fanout env (called w (Pattern_select q e)) (take 2 (categories h)) []) \<noteq> []
          then
            (log_and_time env
               (fst (pattern_fanout env (called w (Pattern_select q e)) (take 2 (categories h)) []))
               st q e ''Historical Pattern''
               (length (snd (pattern_fanout env (called w (Pattern_select q e))
                               (take 2 (categories h)) []))),
             take 6 (snd (pattern_fanout env (called w (Pattern_select q e))
                            (take 2 (categories h)) [])),
             glyph_chart @ '' Using proven successful pattern (used '' @
               str_of_int (h_success_count h) @ '' times)'')
          else neurochat_step3 env
                 (if 2 < h_success_count h
                  then fst (pattern_fanout env (called w (Pattern_select q e))
                              (take 2 (categories h)) [])
                  else called w (Pattern_select q e)) st e q c)"
proof -
  obtain w1 res where l: "get_successful_recommendations env w q e = (w1, res)" by fastforce
  have w1: "w1 = called w (Pattern_select q e)" using lookup_world [of env w q e] l by simp
  show ?thesis
  proof (cases res)
    case None
    then show ?thesis using l w1 by (simp add: neurochat_step2_def)
  next
    case (Some h)
    obtain w2 ps where f: "pattern_fanout env w1 (take 2 (categories h)) [] = (w2, ps)"
      by fastforce
    show ?thesis using l Some f w1 by (auto simp: neurochat_step2_def)
  qed
qed

lemma step2_logged:
  "returns_logged env w st q e (''Historical Pattern'' # later_methods)
     (neurochat_step2 env w st e q c)"
proof -
  let ?w1 = "called w (Pattern_select q e)"
  have q1: "quiet w ?w1" by (simp add: quiet_called)
  have later: "\<And>w'. quiet w w' \<Longrightarrow>
      returns_logged env w st q e (''Historical Pattern'' # later_methods)
        (neurochat_step3 env w' st e q c)"
    by (rule returns_logged_mono [OF returns_logged_quiet [OF _ step3_logged]]) auto
  show ?thesis
  proof (cases "snd (get_successful_recommendations env w q e)")
    case None
    then show ?thesis using later [OF q1] by (simp add: step2_cases)
  next
    case (Some h)
    let ?f = "pattern_fanout env ?w1 (take 2 (categories h)) []"
    have q2: "quiet w (fst ?f)"
      using pattern_fanout_quiet [of ?w1 env "take 2 (categories h)" "[]"] q1
      by (blast intro: quiet_trans)
    show ?thesis
    proof (cases "2 < h_success_count h \<and> snd ?f \<noteq> []")
      case True
      have "returns_logged env w st q e (''Historical Pattern'' # later_methods)
              (log_and_time env (fst ?f) st q e ''Historical Pattern'' (length (snd ?f)),
               take 6 (snd ?f),
               glyph_chart @ '' Using proven successful pattern (used '' @
                 str_of_int (h_success_count h) @ '' times)'')"
        unfolding returns_logged_def using q2 True by fastforce
      then show ?thesis using Some True by (simp add: step2_cases)
    next
      case False
      have "returns_logged env w st q e (''Historical Pattern'' # later_methods)
              (neurochat_step3 env (if 2 < h_success_count h then fst ?f else ?w1) st e q c)"
        by (rule later) (simp add: q1 q2)
      then show ?thesis using Some False by (auto simp: step2_cases)
    qed
  qed
qed

lemma search_logged:
  "returns_logged env w (time_time env (length (trace w))) q e
     (''Local Business'' # ''Historical Pattern'' # later_methods)
     (neurochat_product_search env w e q c)"
proof -
  let ?st = "time_time env (length (trace w))"
  obtain w1 ps where b: "search_business_products env w e q = (w1, ps)" by fastforce
  have q1: "quiet w w1" using business_quiet [of w env e q] b by simp
  show ?thesis
  proof (cases "ps = []")
    case True
    have "returns_logged env w ?st q e (''Local Business'' # ''Historical Pattern'' # later_methods)
            (neurochat_step2 env w1 ?st e q c)"
      by (rule returns_logged_mono [OF returns_logged_quiet [OF q1 step2_logged]]) auto
    then show ?thesis using b True by (simp add: neurochat_product_search_def Let_def)
  next
    case False
    have "returns_logged env w ?st q e (''Local Business'' # ''Historical Pattern'' # later_methods)
            (log_and_time env w1 ?st q e ''Local Business'' (length ps), ps,
             glyph_shop @ '' Found '' @ str_of_nat (length ps) @
               '' products from caring local businesses'')"
      by (rule returns_logged_direct [OF q1]) (use False in simp_all)
    then show ?thesis using b False by (simp add: neurochat_product_search_def Let_def)
  qed
qed

lemma later_not_historical:
  assumes "returns_logged env w st q e later_methods r"
  shows "\<not> (\<exists>found t. emitted (trace (fst r)) =
            emitted (trace w) @ [(q, e, ''Historical Pattern'', found, t)])"
proof -
  from returns_logged_emitted [OF assms] obtain m found where
    m: "m \<in> set later_methods" and
    em: "emitted (trace (fst r)) =
          emitted (trace w) @ [(q, e, m, found, time_time env (length (trace (fst r)) - Suc 0) - st)]"
    by blast
  from m have "m \<noteq> ''Historical Pattern''" by (auto simp: later_methods_def)
  with em show ?thesis by auto
qed

subsection \<open>Local business first\<close>

lemma business_price_env:
  "business_price (env\<lparr>requests_get := r, json_loads := j, os_getenv := g\<rparr>) v = business_price env v"
  by (cases v) simp_all

lemma business_product_dict_env:
  "business_product_dict (env\<lparr>requests_get := r, json_loads := j, os_getenv := g\<rparr>) =
   business_product_dict env"
  by (rule ext) (simp add: business_product_dict_def business_price_env)

lemma business_search_env:
  "search_business_products (env\<lparr>requests_get := r, json_loads := j, os_getenv := g\<rparr>) w emo query =
   search_business_products env w emo query"
  by (simp add: search_business_products_def search_business_products_body_def
        business_product_dict_env)

text \<open>
  Claim C1. For every query, emotion, client and environment: when
  \<^verbatim>\<open>search_business_products\<close> returns at least one product,
  \<^verbatim>\<open>neurochat_product_search\<close> returns exactly those products from step 1. The only
  requests of the run are the business query and the one analytics record, named
  "Local Business": no catalogue, web or completion request is made. The result is the
  same whatever the HTTP layer, the JSON decoder, the process environment and the
  completion client would answer.
\<close>

theorem local_business_priority:
  assumes found: "snd (search_business_products env w emo query) \<noteq> []"
  shows "neurochat_product_search env w emo query client' =
           (log_recommendation_analytics env (called w (Business_select emo query)) query emo
              ''Local Business'' (length (snd (search_business_products env w emo query)))
              (time_time env (Suc (length (trace w))) - time_time env (length (trace w))),
            snd (search_business_products env w emo query),
            glyph_shop @ '' Found '' @
              str_of_nat (length (snd (search_business_products env w emo query))) @
              '' products from caring local businesses'') \<and>
         trace (fst (neurochat_product_search env w emo query client')) =
           trace w @
             [Business_select emo query,
              Analytics_insert query emo ''Local Business''
                (length (snd (search_business_products env w emo query)))
                (time_time env (Suc (length (trace w))) - time_time env (length (trace w)))] \<and>
         (\<forall>r j g client2.
            neurochat_product_search (env\<lparr>requests_get := r, json_loads := j, os_getenv := g\<rparr>)
              w emo query client2 =
            neurochat_product_search env w emo query client')"
proof -
  obtain w1 ps where b: "search_business_products env w emo query = (w1, ps)" by fastforce
  have w1: "w1 = called w (Business_select emo query)"
    using business_world [of env w emo query] b by simp
  have ps: "ps \<noteq> []" using found b by simp
  have len: "length (trace w1) = Suc (length (trace w))" by (simp add: w1 called_def)
  have res: "\<And>c. neurochat_product_search env w emo query c =
           (log_recommendation_analytics env w1 query emo ''Local Business'' (length ps)
              (time_time env (Suc (length (trace w))) - time_time env (length (trace w))),
            ps,
            glyph_shop @ '' Found '' @ str_of_nat (length ps) @
              '' products from caring local businesses'')"
    using b ps len by (simp add: neurochat_product_search_def log_and_time_def Let_def)
  have tr: "trace (fst (neurochat_product_search env w emo query client')) =
           trace w @
             [Business_select emo query,
              Analytics_insert query emo ''Local Business'' (length ps)
                (time_time env (Suc (length (trace w))) - time_time env (length (trace w)))]"
    unfolding res by (simp add: log_recommendation_analytics_def Let_def called_def w1)
  have indep: "\<And>r j g client2.
            neurochat_product_search (env\<lparr>requests_get := r, json_loads := j, os_getenv := g\<rparr>)
              w emo query client2 =
            neurochat_product_search env w emo query client'"
  proof -
    fix r j g client2
    let ?env = "env\<lparr>requests_get := r, json_loads := j, os_getenv := g\<rparr>"
    have "neurochat_product_search ?env w emo query client2 =
           (log_recommendation_analytics ?env w1 query emo ''Local Business'' (length ps)
              (time_time ?env (Suc (length (trace w))) - time_time ?env (length (trace w))),
            ps,
            glyph_shop @ '' Found '' @ str_of_nat (length ps) @
              '' products from caring local businesses'')"
      using b ps len
      by (simp add: neurochat_product_search_def log_and_time_def Let_def business_search_env)
    also have "\<dots> = neurochat_product_search env w emo query client'"
      unfolding res by (simp add: log_recommendation_analytics_def Let_def)
    finally show "neurochat_product_search ?env w emo query client2 =
            neurochat_product_search env w emo query client'" .
  qed
  show ?thesis using res [of client'] tr indep b w1 by simp
qed

text \<open>Claim C1 on the demonstration shop: one candle for a stressed customer.\<close>

theorem local_business_priority_witness:
  "map (\<lambda>p. py_getitem p ''title'')
       (snd (search_business_products demo_env demo_shop ''stressed'' ''a CANDLE please'')) =
     [Inr (PStr ''Lavender Candle'')] \<and>
   fst (snd (neurochat_product_search demo_env demo_shop ''stressed'' ''a CANDLE please'' no_client)) =
     snd (search_business_products demo_env demo_shop ''stressed'' ''a CANDLE please'') \<and>
   trace (fst (neurochat_product_search demo_env demo_shop ''stressed'' ''a CANDLE please'' no_client)) =
     [Business_select ''stressed'' ''a CANDLE please'',
      Analytics_insert ''a CANDLE please'' ''stressed'' ''Local Business'' 1 1]"
proof -
  have ps: "snd (search_business_products demo_env demo_shop ''stressed'' ''a CANDLE please'') =
      [PDict [(''title'', PStr ''Lavender Candle''), (''price'', PStr (rupee @ ''250'')),
              (''description'', PStr ''A calming candle''),
              (''category'', PStr ''home-decoration''),
              (''rating'', PStr (''Local Business '' @ glyph_star)),
              (''stock'', PInt 4), (''brand'', PStr ''Calm Corner''),
              (''source'', PStr (''Local Business '' @ glyph_shop))]]"
    by code_simp
  have found: "snd (search_business_products demo_env demo_shop ''stressed'' ''a CANDLE please'') \<noteq> []"
    unfolding ps by simp
  have t0: "trace demo_shop = []" by (simp add: demo_shop_def)
  have clock: "time_time demo_env (Suc 0) - time_time demo_env 0 = 1" by (simp add: demo_env_def)
  note main = local_business_priority [OF found, of no_client]
  have r1: "fst (snd (neurochat_product_search demo_env demo_shop ''stressed'' ''a CANDLE please''
                        no_client)) =
            snd (search_business_products demo_env demo_shop ''stressed'' ''a CANDLE please'')"
    by (simp add: main [THEN conjunct1])
  have r2: "trace (fst (neurochat_product_search demo_env demo_shop ''stressed''
                          ''a CANDLE please'' no_client)) =
     [Business_select ''stressed'' ''a CANDLE please'',
      Analytics_insert ''a CANDLE please'' ''stressed'' ''Local Business'' 1 1]"
    by (simp add: main [THEN conjunct2, THEN conjunct1] ps t0 clock)
  have r0: "map (\<lambda>p. py_getitem p ''title'')
       (snd (search_business_products demo_env demo_shop ''stressed'' ''a CANDLE please'')) =
     [Inr (PStr ''Lavender Candle'')]"
    unfolding ps by simp
  from r0 r1 r2 show ?thesis by (intro conjI)
qed

subsection \<open>The threshold of the historical pattern\<close>

lemma pattern_fanout_trace:
  "trace (fst (pattern_fanout env w cats acc)) =
     trace w @ map (\<lambda>c. Http_get (fst (dummyjson_request [] c 3)) (snd (dummyjson_request [] c 3))) cats"
proof (induction cats arbitrary: w acc)
  case Nil show ?case by simp
next
  case (Cons c cs)
  obtain w1 ps where f: "fetch_products_dummyjson env w [] c 3 = (w1, ps)" by fastforce
  have w1: "w1 = called w (Http_get (fst (dummyjson_request [] c 3)) (snd (dummyjson_request [] c 3)))"
    using dummyjson_world [of env w "[]" c 3] f by simp
  show ?case using f Cons.IH [of w1 "acc @ ps"] by (simp add: w1 called_def)
qed

text \<open>
  Claim C2. Let step 1 find no local product. If the pattern lookup returns a row whose
  success count is at most 2, the function goes on to step 3 straight after the lookup:
  no catalogue request is made and nothing of a fan-out is returned, whatever the
  catalogue would answer. The run is recorded under "Historical Pattern" exactly when
  the lookup returns a row whose count is above 2 and the fan-out over its first two
  categories is not empty; the products returned are then the first six of that
  fan-out, which is one request of limit 3 to catalogue A per category.
\<close>

theorem historical_pattern_threshold:
  assumes none: "snd (search_business_products env w emo query) = []"
  shows "(\<forall>h. snd (get_successful_recommendations env (called w (Business_select emo query))
                    query emo) = Some h \<and> h_success_count h \<le> 2 \<longrightarrow>
            neurochat_product_search env w emo query client' =
              neurochat_step3 env
                (called (called w (Business_select emo query)) (Pattern_select query emo))
                (time_time env (length (trace w))) emo query client') \<and>
         ((\<exists>found t. emitted (trace (fst (neurochat_product_search env w emo query client'))) =
                       emitted (trace w) @ [(query, emo, ''Historical Pattern'', found, t)]) \<longleftrightarrow>
          (\<exists>h. snd (get_successful_recommendations env (called w (Business_select emo query))
                      query emo) = Some h \<and> 2 < h_success_count h \<and>
               snd (pattern_fanout env
                      (called (called w (Business_select emo query)) (Pattern_select query emo))
                      (take 2 (categories h)) []) \<noteq> [])) \<and>
         (\<forall>h. snd (get_successful_recommendations env (called w (Business_select emo query))
                    query emo) = Some h \<and> 2 < h_success_count h \<and>
              snd (pattern_fanout env
                     (called (called w (Business_select emo query)) (Pattern_select query emo))
                     (take 2 (categories h)) []) \<noteq> [] \<longrightarrow>
            fst (snd (neurochat_product_search env w emo query client')) =
              take 6 (snd (pattern_fanout env
                     (called (called w (Business_select emo query)) (Pattern_select query emo))
                     (take 2 (categories h)) [])) \<and>
            trace (fst (pattern_fanout env
                     (called (called w (Business_select emo query)) (Pattern_select query emo))
                     (take 2 (categories h)) [])) =
              trace w @ [Business_select emo query, Pattern_select query emo] @
                map (\<lambda>c. Http_get (fst (dummyjson_request [] c 3)) (snd (dummyjson_request [] c 3)))
                    (take 2 (categories h)))"
proof -
  let ?w1 = "called w (Business_select emo query)"
  let ?w2 = "called ?w1 (Pattern_select query emo)"
  let ?st = "time_time env (length (trace w))"
  let ?look = "snd (get_successful_recommendations env ?w1 query emo)"
  let ?r = "neurochat_product_search env w emo query client'"
  let ?hp = "\<exists>found t. emitted (trace (fst ?r)) =
                emitted (trace w) @ [(query, emo, ''Historical Pattern'', found, t)]"
  obtain w1 ps where b: "search_business_products env w emo query = (w1, ps)" by fastforce
  have w1: "w1 = ?w1" using business_world [of env w emo query] b by simp
  have ps: "ps = []" using none b by simp
  have r: "?r = neurochat_step2 env ?w1 ?st emo query client'"
    using b ps w1 by (simp add: neurochat_product_search_def Let_def)
  have q1: "quiet w ?w1" by (simp add: quiet_called)
  have q2: "quiet w ?w2" using q1 quiet_called [of "Pattern_select query emo" ?w1]
    by (auto intro: quiet_trans)
  have later: "\<And>w'. quiet w w' \<Longrightarrow> ?r = neurochat_step3 env w' ?st emo query client' \<Longrightarrow> \<not> ?hp"
  proof -
    fix w' assume q: "quiet w w'" and eq: "?r = neurochat_step3 env w' ?st emo query client'"
    have "returns_logged env w ?st query emo later_methods ?r"
      unfolding eq by (rule returns_logged_quiet [OF q step3_logged])
    then show "\<not> ?hp" by (rule later_not_historical)
  qed
  have A: "\<And>h. ?look = Some h \<Longrightarrow> h_success_count h \<le> 2 \<Longrightarrow>
             ?r = neurochat_step3 env ?w2 ?st emo query client'"
    unfolding r by (simp add: step2_cases)
  have fan_quiet: "\<And>h. quiet w (fst (pattern_fanout env ?w2 (take 2 (categories h)) []))"
    using pattern_fanout_quiet q2 by (blast intro: quiet_trans)
  have C: "\<And>h. ?look = Some h \<Longrightarrow> 2 < h_success_count h \<Longrightarrow>
             snd (pattern_fanout env ?w2 (take 2 (categories h)) []) \<noteq> [] \<Longrightarrow>
             ?r = (log_and_time env (fst (pattern_fanout env ?w2 (take 2 (categories h)) [])) ?st
                     query emo ''Historical Pattern''
                     (length (snd (pattern_fanout env ?w2 (take 2 (categories h)) []))),
                   take 6 (snd (pattern_fanout env ?w2 (take 2 (categories h)) [])),
                   glyph_chart @ '' Using proven successful pattern (used '' @
                     str_of_int (h_success_count h) @ '' times)'')"
    unfolding r by (simp add: step2_cases)
  have B1: "\<And>h. ?look = Some h \<Longrightarrow> 2 < h_success_count h \<Longrightarrow>
             snd (pattern_fanout env ?w2 (take 2 (categories h)) []) \<noteq> [] \<Longrightarrow> ?hp"
  proof -
    fix h assume h: "?look = Some h" "2 < h_success_count h"
      "snd (pattern_fanout env ?w2 (take 2 (categories h)) []) \<noteq> []"
    have "emitted (trace (fst ?r)) =
            emitted (trace w) @
              [(query, emo, ''Historical Pattern'',
                length (snd (pattern_fanout env ?w2 (take 2 (categories h)) [])),
                time_time env (length (trace (fst (pattern_fanout env ?w2 (take 2 (categories h)) []))))
                  - ?st)]"
      unfolding C [OF h]
      by (simp add: log_and_time_trace emitted_append quiet_emitted [OF fan_quiet])
    then show ?hp by blast
  qed
  have B2: "?hp \<Longrightarrow> \<exists>h. ?look = Some h \<and> 2 < h_success_count h \<and>
               snd (pattern_fanout env ?w2 (take 2 (categories h)) []) \<noteq> []"
  proof (rule ccontr)
    assume hp: ?hp
    assume no: "\<not> (\<exists>h. ?look = Some h \<and> 2 < h_success_count h \<and>
               snd (pattern_fanout env ?w2 (take 2 (categories h)) []) \<noteq> [])"
    show False
    proof (cases ?look)
      case None
      then have "?r = neurochat_step3 env ?w2 ?st emo query client'"
        unfolding r by (simp add: step2_cases)
      from later [OF q2 this] hp show False by simp
    next
      case (Some h)
      show False
      proof (cases "2 < h_success_count h")
        case False
        with Some have "?r = neurochat_step3 env ?w2 ?st emo query client'"
          using A by simp
        from later [OF q2 this] hp show False by simp
      next
        case True
        with Some no have empty: "snd (pattern_fanout env ?w2 (take 2 (categories h)) []) = []"
          by blast
        have "?r = neurochat_step3 env (fst (pattern_fanout env ?w2 (take 2 (categories h)) []))
                     ?st emo query client'"
          unfolding r using Some True empty by (simp add: step2_cases)
        from later [OF fan_quiet this] hp show False by simp
      qed
    qed
  qed
  have D: "\<And>h. trace (fst (pattern_fanout env ?w2 (take 2 (categories h)) [])) =
              trace w @ [Business_select emo query, Pattern_select query emo] @
                map (\<lambda>c. Http_get (fst (dummyjson_request [] c 3)) (snd (dummyjson_request [] c 3)))
                    (take 2 (categories h))"
    by (simp add: pattern_fanout_trace called_def)
  show ?thesis
  proof (intro conjI allI impI)
    fix h assume "?look = Some h \<and> h_success_count h \<le> 2"
    then show "?r = neurochat_step3 env ?w2 ?st emo query client'" using A by blast
  next
    show "?hp = (\<exists>h. ?look = Some h \<and> 2 < h_success_count h \<and>
               snd (pattern_fanout env ?w2 (take 2 (categories h)) []) \<noteq> [])"
      using B1 B2 by blast
  next
    fix h assume h: "?look = Some h \<and> 2 < h_success_count h \<and>
              snd (pattern_fanout env ?w2 (take 2 (categories h)) []) \<noteq> []"
    then show "fst (snd ?r) = take 6 (snd (pattern_fanout env ?w2 (take 2 (categories h)) []))"
      using C [of h] by simp
  next
    fix h
    show "trace (fst (pattern_fanout env ?w2 (take 2 (categories h)) [])) =
              trace w @ [Business_select emo query, Pattern_select query emo] @
                map (\<lambda>c. Http_get (fst (dummyjson_request [] c 3)) (snd (dummyjson_request [] c 3)))
                    (take 2 (categories h))"
      by (rule D)
  qed
qed

text \<open>Claim C2 on the demonstration shop, whose pattern has the count 2, and on the
  same shop with the count 3; the catalogue answers both fan-outs with two desks.\<close>

theorem historical_pattern_threshold_witness:
  "snd (search_business_products demo_env demo_shop ''happy'' ''I need a desk'') = [] \<and>
   snd (get_successful_recommendations demo_env
          (called demo_shop (Business_select ''happy'' ''I need a desk''))
          ''I need a desk'' ''happy'') =
     Some \<lparr>categories = [''furniture'', ''beauty'', ''laptops''], h_success_count = 2\<rparr> \<and>
   snd (pattern_fanout demo_env
          (called (called demo_shop (Business_select ''happy'' ''I need a desk''))
             (Pattern_select ''I need a desk'' ''happy''))
          [''furniture'', ''beauty''] []) = [desk, desk] \<and>
   neurochat_product_search demo_env demo_shop ''happy'' ''I need a desk'' no_client =
     neurochat_step3 demo_env
       (called (called demo_shop (Business_select ''happy'' ''I need a desk''))
          (Pattern_select ''I need a desk'' ''happy''))
       (time_time demo_env (length (trace demo_shop))) ''happy'' ''I need a desk'' no_client \<and>
   snd (search_business_products demo_env demo_shop3 ''happy'' ''I need a desk'') = [] \<and>
   snd (get_successful_recommendations demo_env
          (called demo_shop3 (Business_select ''happy'' ''I need a desk''))
          ''I need a desk'' ''happy'') =
     Some \<lparr>categories = [''furniture'', ''beauty'', ''laptops''], h_success_count = 3\<rparr> \<and>
   fst (snd (neurochat_product_search demo_env demo_shop3 ''happy'' ''I need a desk'' no_client)) =
     [desk, desk]"
proof -
  let ?h2 = "\<lparr>categories = [''furniture'', ''beauty'', ''laptops''], h_success_count = 2\<rparr>"
  let ?h3 = "\<lparr>categories = [''furniture'', ''beauty'', ''laptops''], h_success_count = 3\<rparr>"
  have none2: "snd (search_business_products demo_env demo_shop ''happy'' ''I need a desk'') = []"
    by code_simp
  have look2: "snd (get_successful_recommendations demo_env
          (called demo_shop (Business_select ''happy'' ''I need a desk''))
          ''I need a desk'' ''happy'') = Some ?h2"
    by code_simp
  have fan2: "snd (pattern_fanout demo_env
          (called (called demo_shop (Business_select ''happy'' ''I need a desk''))
             (Pattern_select ''I need a desk'' ''happy''))
          [''furniture'', ''beauty''] []) = [desk, desk]"
    by code_simp
  have none3: "snd (search_business_products demo_env demo_shop3 ''happy'' ''I need a desk'') = []"
    by code_simp
  have look3: "snd (get_successful_recommendations demo_env
          (called demo_shop3 (Business_select ''happy'' ''I need a desk''))
          ''I need a desk'' ''happy'') = Some ?h3"
    by code_simp
  have fan3: "snd (pattern_fanout demo_env
          (called (called demo_shop3 (Business_select ''happy'' ''I need a desk''))
             (Pattern_select ''I need a desk'' ''happy''))
          (take 2 (categories ?h3)) []) = [desk, desk]"
    by code_simp
  have a: "neurochat_product_search demo_env demo_shop ''happy'' ''I need a desk'' no_client =
     neurochat_step3 demo_env
       (called (called demo_shop (Business_select ''happy'' ''I need a desk''))
          (Pattern_select ''I need a desk'' ''happy''))
       (time_time demo_env (length (trace demo_shop))) ''happy'' ''I need a desk'' no_client"
    using historical_pattern_threshold [OF none2, of no_client, THEN conjunct1, rule_format, of ?h2]
      look2 by simp
  have c: "fst (snd (neurochat_product_search demo_env demo_shop3 ''happy'' ''I need a desk''
                       no_client)) = [desk, desk]"
    using historical_pattern_threshold [OF none3, of no_client, THEN conjunct2, THEN conjunct2,
        rule_format, of ?h3] look3 fan3 by simp
  from none2 look2 fan2 a none3 look3 c show ?thesis by (intro conjI)
qed

subsection \<open>One analytics record per call\<close>

text \<open>The orchestrator is the fallback chain of the specification: the seven states are
  tried in their order, each at most once, on the world the states before left behind,
  and the first one that produces products halts the machine.\<close>

lemma run_from_Nil:
  "run_from env st q e [] w = (log_and_time env w st q e ''No Results'' 0, [], still_learning)"
  by (simp add: run_from_def)

lemma run_from_Cons:
  "run_from env st q e (s # rest) w =
     (case snd s w of
        (w1, Some (ps, k, r)) \<Rightarrow> (log_and_time env w1 st q e (fst s) k, ps, r)
      | (w1, None) \<Rightarrow> run_from env st q e rest w1)"
  by (simp add: run_from_def split: prod.splits option.splits)

lemma step7_chain:
  "neurochat_step7 env w st e q = run_from env st q e [safety_fallback_state env] w"
  by (simp add: neurochat_step7_def run_from_Cons run_from_Nil safety_fallback_state_def
        still_learning_def split: prod.splits)

lemma step6_chain:
  "neurochat_step6 env w st e q c =
     run_from env st q e [ai_fallback_state env e q c, safety_fallback_state env] w"
  unfolding run_from_Cons [of env st q e "ai_fallback_state env e q c"]
  by (simp add: neurochat_step6_def Let_def ai_fallback_state_def step7_chain
        split: prod.splits sum.splits)

lemma step5_chain:
  "neurochat_step5 env w st e q c =
     run_from env st q e
       [context_ai_state env e q c, ai_fallback_state env e q c, safety_fallback_state env] w"
  unfolding run_from_Cons [of env st q e "context_ai_state env e q c"]
  by (simp add: neurochat_step5_def context_ai_state_def step6_chain split: prod.splits)

lemma step4_chain:
  "neurochat_step4 env w st e q c =
     run_from env st q e
       [web_search_state env q, context_ai_state env e q c, ai_fallback_state env e q c,
        safety_fallback_state env] w"
  unfolding run_from_Cons [of env st q e "web_search_state env q"]
  by (auto simp: neurochat_step4_def web_search_state_def step5_chain split: prod.splits)

lemma step3_chain:
  "neurochat_step3 env w st e q c =
     run_from env st q e
       [semantic_ai_state env q c, web_search_state env q, context_ai_state env e q c,
        ai_fallback_state env e q c, safety_fallback_state env] w"
  unfolding run_from_Cons [of env st q e "semantic_ai_state env q c"]
  by (auto simp: neurochat_step3_def semantic_ai_state_def step4_chain split: prod.splits)

lemma step2_chain:
  "neurochat_step2 env w st e q c =
     run_from env st q e
       [historical_pattern_state env e q, semantic_ai_state env q c, web_search_state env q,
        context_ai_state env e q c, ai_fallback_state env e q c, safety_fallback_state env] w"
  unfolding run_from_Cons [of env st q e "historical_pattern_state env e q"]
  by (auto simp: neurochat_step2_def historical_pattern_state_def step3_chain
        split: prod.splits option.splits)

lemma search_chain:
  "neurochat_product_search env w e q c = run_chain env q e (fallback_chain env e q c) w"
  unfolding run_chain_def fallback_chain_def
    run_from_Cons [of env _ q e "local_business_state env e q"]
  by (auto simp: neurochat_product_search_def Let_def local_business_state_def step2_chain
        split: prod.splits)


lemma first_hit_quiet:
  "(\<And>s w. s \<in> set chain \<Longrightarrow> quiet w (fst (snd s w))) \<Longrightarrow> quiet w (fst (first_hit chain w))"
proof (induction chain arbitrary: w)
  case Nil show ?case by (simp add: quiet_refl)
next
  case (Cons s rest)
  obtain w1 h where a: "snd s w = (w1, h)" by fastforce
  have q1: "quiet w w1" using Cons.prems [of s w] a by simp
  show ?case
  proof (cases h)
    case (Some x)
    then show ?thesis using a q1 by simp
  next
    case None
    have "quiet w1 (fst (first_hit rest w1))"
      by (rule Cons.IH) (simp add: Cons.prems)
    with q1 have "quiet w (fst (first_hit rest w1))" by (rule quiet_trans)
    then show ?thesis using a None by simp
  qed
qed

lemma local_business_state_quiet: "quiet w (fst (snd (local_business_state env e q) w))"
  using business_quiet [of w env e q]
  by (auto simp: local_business_state_def split: prod.splits)

lemma historical_pattern_state_quiet: "quiet w (fst (snd (historical_pattern_state env e q) w))"
proof -
  obtain w1 res where l: "get_successful_recommendations env w q e = (w1, res)" by fastforce
  have q1: "quiet w w1" using lookup_quiet [of w env q e] l by simp
  show ?thesis
  proof (cases res)
    case None
    then show ?thesis using l q1 by (simp add: historical_pattern_state_def)
  next
    case (Some h)
    obtain w2 pp where f: "pattern_fanout env w1 (take 2 (categories h)) [] = (w2, pp)"
      by fastforce
    have "quiet w1 w2" using pattern_fanout_quiet [of w1 env "take 2 (categories h)" "[]"] f
      by simp
    with q1 have "quiet w w2" by (rule quiet_trans)
    then show ?thesis using l Some f q1 by (simp add: historical_pattern_state_def)
  qed
qed

lemma semantic_ai_state_quiet: "quiet w (fst (snd (semantic_ai_state env q c) w))"
  using semantic_quiet [of w env q c 6]
  by (auto simp: semantic_ai_state_def quiet_refl split: prod.splits)

lemma web_search_state_quiet: "quiet w (fst (snd (web_search_state env q) w))"
  using web_quiet [of w env q 6]
  by (auto simp: web_search_state_def quiet_refl split: prod.splits)

lemma context_ai_state_quiet: "quiet w (fst (snd (context_ai_state env e q c) w))"
  using context_quiet [of w env e q c]
  by (auto simp: context_ai_state_def split: prod.splits)

lemma ai_fallback_state_quiet: "quiet w (fst (snd (ai_fallback_state env e q c) w))"
proof -
  let ?w0 = "called w (Generate_content (Fallback_prompt q e))"
  have q0: "quiet w ?w0" by (simp add: quiet_called)
  show ?thesis
  proof (cases "andThen (c (length (trace w)) (Fallback_prompt q e)) response_text")
    case (Inl x)
    then show ?thesis using q0 by (simp add: ai_fallback_state_def)
  next
    case (Inr reply)
    obtain w1 pa where f: "fetch_products_dummyjson env ?w0 [] (lower reply) 6 = (w1, pa)"
      by fastforce
    have q1: "quiet w w1"
      using dummyjson_quiet [of ?w0 env "[]" "lower reply" 6] f q0 by (auto intro: quiet_trans)
    obtain w2 fp where g: "(if pa = [] then fetch_products_fakestore env w1 [] (lower reply) 6
                            else (w1, pa)) = (w2, fp)" by fastforce
    have q2: "quiet w w2"
    proof (cases "pa = []")
      case True
      then show ?thesis
        using fakestore_quiet [of w1 env "[]" "lower reply" 6] g q1 by (auto intro: quiet_trans)
    next
      case False
      then show ?thesis using g q1 by simp
    qed
    show ?thesis using Inr f g q2 by (simp add: ai_fallback_state_def)
  qed
qed

lemma safety_fallback_state_quiet: "quiet w (fst (snd (safety_fallback_state env) w))"
  using dummyjson_quiet [of w env "[]" "[]" 6]
  by (auto simp: safety_fallback_state_def split: prod.splits)

lemma fallback_chain_quiet: "quiet w (fst (first_hit (fallback_chain env e q c) w))"
  by (rule first_hit_quiet)
     (auto simp: fallback_chain_def local_business_state_quiet historical_pattern_state_quiet
        semantic_ai_state_quiet web_search_state_quiet context_ai_state_quiet
        ai_fallback_state_quiet safety_fallback_state_quiet)

text \<open>
  Claim C3. For every query, emotion and client, in every environment,
  \<^verbatim>\<open>neurochat_product_search\<close> returns (it is a total function of the model), and it is
  the run of the seven-state chain of the specification: the states are tried in order,
  each at most once, and the run ends at the first state that yields products, or after
  the seventh with "No Results", no products and a count of 0. The states themselves
  send no analytics record and leave the analytics table alone. On return the call has
  sent exactly one record, as its last effect: the query, the emotion, the name of the
  state that halted the chain, the count that state gave, and the clock at the return
  minus the clock at the entry. The count is the number of products returned, except in
  "Historical Pattern", where it is the number fetched before the cut to six. The result
  is the products and the rationale of that same state; it is empty exactly under the
  name "No Results". The analytics table keeps its rows when the connection of the sink
  raises, and gains exactly the one row of that record when it does not.
\<close>

theorem orchestrator_logs_once:
  "neurochat_product_search env w emo query client' =
     run_chain env query emo (fallback_chain env emo query client') w \<and>
   (case first_hit (fallback_chain env emo query client') w of
      (w1, h) \<Rightarrow>
        (case outcome h of
           (name, products, found, rationale) \<Rightarrow>
             emitted (trace w1) = emitted (trace w) \<and>
             recommendation_analytics w1 = recommendation_analytics w \<and>
             trace (fst (neurochat_product_search env w emo query client')) =
               trace w1 @
                 [Analytics_insert query emo name found
                    (time_time env (length (trace w1)) - time_time env (length (trace w)))] \<and>
             emitted (trace (fst (neurochat_product_search env w emo query client'))) =
               emitted (trace w) @
                 [(query, emo, name, found,
                   time_time env (length (trace w1)) - time_time env (length (trace w)))] \<and>
             snd (neurochat_product_search env w emo query client') = (products, rationale) \<and>
             recommendation_analytics (fst (neurochat_product_search env w emo query client')) =
               (if sqlite_fault env (length (trace w1)) then recommendation_analytics w
                else recommendation_analytics w @
                  [\<lparr>an_id = next_id (map an_id (recommendation_analytics w)),
                    an_user_query = query, user_emotion = emo,
                    recommendation_method = name, products_found = found,
                    response_time =
                      time_time env (length (trace w1)) - time_time env (length (trace w)),
                    an_created_date = isoformat (datetime_now env (length (trace w1)))\<rparr>]) \<and>
             name \<in> set (''Local Business'' # ''Historical Pattern'' # later_methods) \<and>
             length products \<le> found \<and>
             (name = ''Historical Pattern'' \<or> found = length products) \<and>
             ((products = []) = (name = ''No Results''))))"
proof -
  let ?chain = "fallback_chain env emo query client'"
  let ?st = "time_time env (length (trace w))"
  obtain w1 h where fh: "first_hit ?chain w = (w1, h)" by fastforce
  obtain name products found rationale where oc: "outcome h = (name, products, found, rationale)"
    by (metis prod_cases4)
  have q: "quiet w w1" using fallback_chain_quiet [of w env emo query client'] fh by simp
  have r: "neurochat_product_search env w emo query client' =
             (log_and_time env w1 ?st query emo name found, products, rationale)"
    using fh oc by (simp add: search_chain run_chain_def run_from_def)
  have main: "emitted (trace w1) = emitted (trace w) \<and>
        recommendation_analytics w1 = recommendation_analytics w \<and>
        trace (fst (neurochat_product_search env w emo query client')) =
          trace w1 @ [Analytics_insert query emo name found
                        (time_time env (length (trace w1)) - ?st)] \<and>
        emitted (trace (fst (neurochat_product_search env w emo query client'))) =
          emitted (trace w) @ [(query, emo, name, found, time_time env (length (trace w1)) - ?st)] \<and>
        snd (neurochat_product_search env w emo query client') = (products, rationale) \<and>
        recommendation_analytics (fst (neurochat_product_search env w emo query client')) =
          (if sqlite_fault env (length (trace w1)) then recommendation_analytics w
           else recommendation_analytics w @
             [\<lparr>an_id = next_id (map an_id (recommendation_analytics w)),
               an_user_query = query, user_emotion = emo,
               recommendation_method = name, products_found = found,
               response_time = time_time env (length (trace w1)) - ?st,
               an_created_date = isoformat (datetime_now env (length (trace w1)))\<rparr>])"
    unfolding r
    by (simp add: log_and_time_trace log_and_time_table emitted_append quiet_emitted [OF q]
          quiet_table [OF q])
  moreover have shape:
       "name \<in> set (''Local Business'' # ''Historical Pattern'' # later_methods) \<and>
        length products \<le> found \<and>
        (name = ''Historical Pattern'' \<or> found = length products) \<and>
        ((products = []) = (name = ''No Results''))"
  proof -
    from returns_logged_emitted [OF search_logged [where env = env and w = w and q = query and e = emo and c = client']]
    obtain m k where
      mk: "m \<in> set (''Local Business'' # ''Historical Pattern'' # later_methods)"
          "emitted (trace (fst (neurochat_product_search env w emo query client'))) =
             emitted (trace w) @
               [(query, emo, m, k,
                 time_time env
                   (length (trace (fst (neurochat_product_search env w emo query client'))) - Suc 0)
                   - time_time env (length (trace w)))]"
          "length (fst (snd (neurochat_product_search env w emo query client'))) \<le> k"
          "m = ''Historical Pattern'' \<or>
             k = length (fst (snd (neurochat_product_search env w emo query client')))"
          "(fst (snd (neurochat_product_search env w emo query client')) = []) = (m = ''No Results'')"
      by blast
    have "emitted (trace (fst (neurochat_product_search env w emo query client'))) =
            emitted (trace w) @
              [(query, emo, name, found, time_time env (length (trace w1)) - ?st)]"
      unfolding r
      by (simp add: log_and_time_trace emitted_append quiet_emitted [OF q])
    with mk(2) have same: "m = name" "k = found" by simp_all
    have p: "fst (snd (neurochat_product_search env w emo query client')) = products"
      by (simp add: r)
    from mk(1,3,4,5) show ?thesis unfolding same p by blast
  qed
  ultimately have rest: "case first_hit ?chain w of
      (w1, h) \<Rightarrow>
        (case outcome h of
           (name, products, found, rationale) \<Rightarrow>
             emitted (trace w1) = emitted (trace w) \<and>
             recommendation_analytics w1 = recommendation_analytics w \<and>
             trace (fst (neurochat_product_search env w emo query client')) =
               trace w1 @
                 [Analytics_insert query emo name found
                    (time_time env (length (trace w1)) - time_time env (length (trace w)))] \<and>
             emitted (trace (fst (neurochat_product_search env w emo query client'))) =
               emitted (trace w) @
                 [(query, emo, name, found,
                   time_time env (length (trace w1)) - time_time env (length (trace w)))] \<and>
             snd (neurochat_product_search env w emo query client') = (products, rationale) \<and>
             recommendation_analytics (fst (neurochat_product_search env w emo query client')) =
               (if sqlite_fault env (length (trace w1)) then recommendation_analytics w
                else recommendation_analytics w @
                  [\<lparr>an_id = next_id (map an_id (recommendation_analytics w)),
                    an_user_query = query, user_emotion = emo,
                    recommendation_method = name, products_found = found,
                    response_time =
                      time_time env (length (trace w1)) - time_time env (length (trace w)),
                    an_created_date = isoformat (datetime_now env (length (trace w1)))\<rparr>]) \<and>
             name \<in> set (''Local Business'' # ''Historical Pattern'' # later_methods) \<and>
             length products \<le> found \<and>
             (name = ''Historical Pattern'' \<or> found = length products) \<and>
             ((products = []) = (name = ''No Results'')))"
    unfolding fh oc prod.case using shape by blast
  from search_chain [of env w emo query client'] rest show ?thesis by (rule conjI)
qed


theorem orchestrator_logs_once_witness:
  "snd (first_hit (fallback_chain barren_env ''sad'' ''xy'' no_client) demo_shop) = None \<and>
   map (\<lambda>c. case c of Http_get url params \<Rightarrow> ''http'' | Generate_content p \<Rightarrow> ''completion''
               | Business_select e q \<Rightarrow> ''business'' | Pattern_select q e \<Rightarrow> ''pattern''
               | Analytics_insert q e m k t \<Rightarrow> m | other \<Rightarrow> ''other'')
     (trace (fst (neurochat_product_search barren_env demo_shop ''sad'' ''xy'' no_client))) =
     [''business'', ''pattern'', ''http'', ''completion'', ''completion'', ''http'', ''No Results''] \<and>
   emitted (trace (fst (neurochat_product_search barren_env demo_shop ''sad'' ''xy'' no_client))) =
     [(''xy'', ''sad'', ''No Results'', 0, 6)] \<and>
   snd (neurochat_product_search barren_env demo_shop ''sad'' ''xy'' no_client) =
     ([], still_learning) \<and>
   map (\<lambda>row. (recommendation_method row, products_found row))
     (recommendation_analytics
        (fst (neurochat_product_search barren_env demo_shop ''sad'' ''xy'' no_client))) =
     [(''No Results'', 0)] \<and>
   snd (first_hit (fallback_chain big_env ''happy'' ''I need a desk'' no_client) demo_shop3) =
     Some (''Historical Pattern'', replicate 6 desk, 8,
           glyph_chart @ '' Using proven successful pattern (used 3 times)'') \<and>
   emitted (trace (fst (neurochat_product_search big_env demo_shop3 ''happy'' ''I need a desk''
                          no_client))) =
     [(''I need a desk'', ''happy'', ''Historical Pattern'', 8, 4)] \<and>
   fst (snd (neurochat_product_search big_env demo_shop3 ''happy'' ''I need a desk'' no_client)) =
     replicate 6 desk"
proof -
  let ?C = "fallback_chain barren_env ''sad'' ''xy'' no_client"
  let ?D = "fallback_chain big_env ''happy'' ''I need a desk'' no_client"
  let ?kind = "\<lambda>c. case c of Http_get url params \<Rightarrow> ''http'' | Generate_content p \<Rightarrow> ''completion''
               | Business_select e q \<Rightarrow> ''business'' | Pattern_select q e \<Rightarrow> ''pattern''
               | Analytics_insert q e m k t \<Rightarrow> m | other \<Rightarrow> ''other''"
  have s1: "snd (first_hit ?C demo_shop) = None" by code_simp
  have k1: "map ?kind (trace (fst (first_hit ?C demo_shop))) =
              [''business'', ''pattern'', ''http'', ''completion'', ''completion'', ''http'']"
    by code_simp
  obtain w1 where fh1: "first_hit ?C demo_shop = (w1, None)"
    using s1 by (cases "first_hit ?C demo_shop") simp
  have tr1: "map ?kind (trace w1) =
              [''business'', ''pattern'', ''http'', ''completion'', ''completion'', ''http'']"
    using k1 fh1 by simp
  have l1: "length (trace w1) = 6" using arg_cong [OF tr1, of length] by simp
  have e0: "emitted (trace demo_shop) = []" "recommendation_analytics demo_shop = []"
    "trace demo_shop = []" "emitted (trace demo_shop3) = []" "trace demo_shop3 = []"
    by (simp_all add: demo_shop_def demo_shop3_def)
  have ok1: "\<not> sqlite_fault barren_env 6" by (simp add: barren_env_def demo_env_def)
  have t1: "time_time barren_env 6 - time_time barren_env 0 = 6"
    by (simp add: barren_env_def demo_env_def)
  note m1 = orchestrator_logs_once [of barren_env demo_shop "''sad''" "''xy''" no_client,
      THEN conjunct2, unfolded fh1 prod.case outcome.simps]
  have a1: "map ?kind (trace (fst (neurochat_product_search barren_env demo_shop ''sad'' ''xy''
              no_client))) =
     [''business'', ''pattern'', ''http'', ''completion'', ''completion'', ''http'', ''No Results'']"
    using m1 [THEN conjunct2, THEN conjunct2, THEN conjunct1] by (simp add: tr1)
  have a2: "emitted (trace (fst (neurochat_product_search barren_env demo_shop ''sad'' ''xy''
              no_client))) = [(''xy'', ''sad'', ''No Results'', 0, 6)]"
    using m1 [THEN conjunct2, THEN conjunct2, THEN conjunct2, THEN conjunct1]
    by (simp add: e0 l1 t1)
  have a3: "snd (neurochat_product_search barren_env demo_shop ''sad'' ''xy'' no_client) =
     ([], still_learning)"
    using m1 [THEN conjunct2, THEN conjunct2, THEN conjunct2, THEN conjunct2, THEN conjunct1]
    by simp
  have a4: "map (\<lambda>row. (recommendation_method row, products_found row))
     (recommendation_analytics
        (fst (neurochat_product_search barren_env demo_shop ''sad'' ''xy'' no_client))) =
     [(''No Results'', 0)]"
    using m1 [THEN conjunct2, THEN conjunct2, THEN conjunct2, THEN conjunct2, THEN conjunct2,
        THEN conjunct1]
    by (simp add: e0 l1 ok1)
  have s2: "snd (first_hit ?D demo_shop3) =
     Some (''Historical Pattern'', replicate 6 desk, 8,
           glyph_chart @ '' Using proven successful pattern (used 3 times)'')"
    by code_simp
  have k2: "length (trace (fst (first_hit ?D demo_shop3))) = 4" by code_simp
  obtain w2 where fh2: "first_hit ?D demo_shop3 =
     (w2, Some (''Historical Pattern'', replicate 6 desk, 8,
           glyph_chart @ '' Using proven successful pattern (used 3 times)''))"
    using s2 by (cases "first_hit ?D demo_shop3") simp
  have l2: "length (trace w2) = 4" using k2 fh2 by simp
  have t2: "time_time big_env 4 - time_time big_env 0 = 4"
    by (simp add: big_env_def demo_env_def)
  note m2 = orchestrator_logs_once [of big_env demo_shop3 "''happy''" "''I need a desk''" no_client,
      THEN conjunct2, unfolded fh2 prod.case outcome.simps]
  have b1: "emitted (trace (fst (neurochat_product_search big_env demo_shop3 ''happy''
              ''I need a desk'' no_client))) =
     [(''I need a desk'', ''happy'', ''Historical Pattern'', 8, 4)]"
    using m2 [THEN conjunct2, THEN conjunct2, THEN conjunct2, THEN conjunct1]
    by (simp add: e0 l2 t2)
  have b2: "fst (snd (neurochat_product_search big_env demo_shop3 ''happy'' ''I need a desk''
              no_client)) = replicate 6 desk"
    using m2 [THEN conjunct2, THEN conjunct2, THEN conjunct2, THEN conjunct2, THEN conjunct1]
    by simp
  from s1 a1 a2 a3 a4 s2 b1 b2 show ?thesis by (intro conjI)
qed

subsection \<open>Emotion thresholds\<close>



subsection \<open>Recording the same success twice\<close>

lemma fold_max_ge: "x \<in> set xs \<Longrightarrow> x \<le> fold max xs (a::nat)"
proof (induction xs arbitrary: a)
  case Nil then show ?case by simp
next
  case (Cons y ys)
  have mono: "\<And>b. b \<le> fold max ys (b::nat)"
  proof -
    fix b show "b \<le> fold max ys (b::nat)"
    proof (induction ys arbitrary: b)
      case Nil show ?case by simp
    next
      case (Cons z zs)
      have "b \<le> max z b" by simp
      also have "\<dots> \<le> fold max zs (max z b)" by (rule Cons.IH)
      finally show ?case by simp
    qed
  qed
  show ?case
  proof (cases "x = y")
    case True
    have "y \<le> max y a" by simp
    also have "\<dots> \<le> fold max ys (max y a)" by (rule mono)
    finally show ?thesis using True by simp
  next
    case False
    with Cons.prems have "x \<in> set ys" by simp
    then show ?thesis using Cons.IH by simp
  qed
qed

lemma next_id_fresh: "x \<in> set ids \<Longrightarrow> x < next_id ids"
  using fold_max_ge [of x ids 0] by (simp add: next_id_def)


lemma find_append_None: "find P xs = None \<Longrightarrow> find P (xs @ ys) = find P ys"
  by (induction xs) (auto split: if_splits)

text \<open>
  Claim C5. Take a store with no row for the key of \<open>(query, emo, cats)\<close>: the first
  three lower-cased words of the query joined by blanks, the emotion, the categories
  joined by commas. Two calls of \<^verbatim>\<open>save_successful_pattern\<close> in a row with these
  arguments, neither of which meets an SQLite error, leave the old rows as they were and
  one new row for the key. After the first call its counter is 1; after the second the
  counter is 2 and the time stamp is that of the second call, and that row is the only
  row of the key.
\<close>

theorem save_successful_pattern_twice:
  assumes fresh: "\<forall>r \<in> set (successful_patterns w). \<not> has_key (pattern_key query) emo (join '','' cats) r"
      and ok1: "\<not> sqlite_fault env (length (trace w))"
      and ok2: "\<not> sqlite_fault env (Suc (length (trace w)))"
  shows "successful_patterns (save_successful_pattern env w query emo cats) =
           successful_patterns w @
             [\<lparr>pat_id = next_id (map pat_id (successful_patterns w)),
               query_pattern = pattern_key query, emotion = emo,
               successful_categories = join '','' cats, success_count = 1,
               last_success = isoformat (datetime_now env (length (trace w)))\<rparr>] \<and>
         successful_patterns (save_successful_pattern env
               (save_successful_pattern env w query emo cats) query emo cats) =
           successful_patterns w @
             [\<lparr>pat_id = next_id (map pat_id (successful_patterns w)),
               query_pattern = pattern_key query, emotion = emo,
               successful_categories = join '','' cats, success_count = 2,
               last_success = isoformat (datetime_now env (Suc (length (trace w))))\<rparr>] \<and>
         filter (has_key (pattern_key query) emo (join '','' cats))
           (successful_patterns (save_successful_pattern env
               (save_successful_pattern env w query emo cats) query emo cats)) =
             [\<lparr>pat_id = next_id (map pat_id (successful_patterns w)),
               query_pattern = pattern_key query, emotion = emo,
               successful_categories = join '','' cats, success_count = 2,
               last_success = isoformat (datetime_now env (Suc (length (trace w))))\<rparr>]"
proof -
  let ?k = "has_key (pattern_key query) emo (join '','' cats)"
  let ?row = "\<lambda>c t. \<lparr>pat_id = next_id (map pat_id (successful_patterns w)),
               query_pattern = pattern_key query, emotion = emo,
               successful_categories = join '','' cats, success_count = c,
               last_success = t\<rparr>"
  let ?w1 = "save_successful_pattern env w query emo cats"
  from fresh have none: "find ?k (successful_patterns w) = None"
    by (simp add: find_None_iff)
  have first: "successful_patterns ?w1 = successful_patterns w @ [?row 1 (isoformat (datetime_now env (length (trace w))))]"
    using none ok1 by (simp add: save_successful_pattern_def Let_def called_def)
  have tr: "length (trace ?w1) = Suc (length (trace w))"
    using none ok1 by (simp add: save_successful_pattern_def Let_def called_def)
  have found: "find ?k (successful_patterns ?w1) = Some (?row 1 (isoformat (datetime_now env (length (trace w)))))"
    using none unfolding first by (simp add: find_append_None has_key_def)
  have others: "\<forall>r \<in> set (successful_patterns w). pat_id r \<noteq> next_id (map pat_id (successful_patterns w))"
    using next_id_fresh [of _ "map pat_id (successful_patterns w)"] by fastforce
  have "successful_patterns (save_successful_pattern env ?w1 query emo cats) =
        map (\<lambda>r. if pat_id r = next_id (map pat_id (successful_patterns w))
                  then r\<lparr>success_count := success_count r + 1,
                         last_success := isoformat (datetime_now env (Suc (length (trace w))))\<rparr>
                  else r) (successful_patterns ?w1)"
    using found ok2 tr
    by (simp add: save_successful_pattern_def [of env ?w1] Let_def called_def)
  also have "\<dots> = successful_patterns w @ [?row 2 (isoformat (datetime_now env (Suc (length (trace w)))))]"
    unfolding first using others by (simp add: map_idI)
  finally have second: "successful_patterns (save_successful_pattern env ?w1 query emo cats) =
      successful_patterns w @ [?row 2 (isoformat (datetime_now env (Suc (length (trace w)))))]" .
  have old_rows: "filter ?k (successful_patterns w) = []"
    using fresh by (simp add: filter_empty_conv)
  have one: "filter ?k (successful_patterns (save_successful_pattern env ?w1 query emo cats)) =
      [?row 2 (isoformat (datetime_now env (Suc (length (trace w)))))]"
    unfolding second by (simp add: old_rows has_key_def)
  from first second one show ?thesis by (intro conjI)
qed

text \<open>Claim C5 on the demonstration store, for a query that has no pattern yet.\<close>

theorem save_successful_pattern_twice_witness:
  "find (has_key (pattern_key ''Cozy  reading LAMP please'') ''happy'' (join '','' [''general'']))
        (successful_patterns demo_shop) = None \<and>
   \<not> sqlite_fault demo_env (length (trace demo_shop)) \<and>
   \<not> sqlite_fault demo_env (Suc (length (trace demo_shop))) \<and>
   successful_patterns (save_successful_pattern demo_env
       (save_successful_pattern demo_env demo_shop ''Cozy  reading LAMP please'' ''happy'' [''general''])
       ''Cozy  reading LAMP please'' ''happy'' [''general'']) =
     successful_patterns demo_shop @
       [\<lparr>pat_id = 2, query_pattern = ''cozy reading lamp'', emotion = ''happy'',
         successful_categories = ''general'', success_count = 2,
         last_success = ''2025-01-01''\<rparr>]"
proof -
  have fresh: "\<forall>r \<in> set (successful_patterns demo_shop).
      \<not> has_key (pattern_key ''Cozy  reading LAMP please'') ''happy'' (join '','' [''general'']) r"
    by (simp add: demo_shop_def has_key_def)
  have ok1: "\<not> sqlite_fault demo_env (length (trace demo_shop))"
    and ok2: "\<not> sqlite_fault demo_env (Suc (length (trace demo_shop)))"
    by (simp_all add: demo_env_def)
  have key: "pattern_key ''Cozy  reading LAMP please'' = ''cozy reading lamp''"
    by (simp add: pattern_key_def split_ws_def lower_def is_space_def)
  have stamp: "isoformat (datetime_now demo_env (Suc (length (trace demo_shop)))) = ''2025-01-01''"
    by (simp add: demo_env_def demo_shop_def str_of_nat_def)
  have ident: "next_id (map pat_id (successful_patterns demo_shop)) = 2"
    by (simp add: demo_shop_def next_id_def)
  show ?thesis
    using save_successful_pattern_twice [OF fresh ok1 ok2] fresh ok1 ok2
    by (simp add: key stamp ident find_None_iff)
qed

subsection \<open>Calls that overlap\<close>












subsection \<open>Accepted feedback records the category "general"\<close>

text \<open>
  Claim C7. For every feedback call with the verdict \<^verbatim>\<open>"perfect_match"\<close> whose insert
  into the feedback log goes through, \<^verbatim>\<open>save_product_feedback\<close> appends the feedback row
  and then calls \<^verbatim>\<open>save_successful_pattern\<close> with the query, the emotion that
  \<^verbatim>\<open>detect_emotion\<close> gives for the query, and the one-element category list
  \<^verbatim>\<open>["general"]\<close>: the two requests of the run are the feedback insert and the upsert of
  the pattern under the categories text "general". The pattern store afterwards is the
  same whichever product was accepted and from whichever source.
\<close>

theorem accepted_feedback_general:
  assumes ok: "\<not> sqlite_fault env (length (trace w))"
  shows "save_product_feedback env w name query ''perfect_match'' source =
           (save_successful_pattern env
              (w\<lparr>trace := trace w @ [Feedback_insert name query ''perfect_match'' source],
                 product_feedback := product_feedback w @
                   [\<lparr>fb_id = next_id (map fb_id (product_feedback w)), product_name = name,
                     user_query = query, feedback_type = ''perfect_match'',
                     recommendation_source = source,
                     fb_created_date = isoformat (datetime_now env (length (trace w)))\<rparr>]\<rparr>)
              query (fst (detect_emotion env query)) [''general''],
            True) \<and>
         trace (fst (save_product_feedback env w name query ''perfect_match'' source)) =
           trace w @
             [Feedback_insert name query ''perfect_match'' source,
              Pattern_upsert (pattern_key query) (fst (detect_emotion env query)) ''general''] \<and>
         product_feedback (fst (save_product_feedback env w name query ''perfect_match'' source)) =
           product_feedback w @
             [\<lparr>fb_id = next_id (map fb_id (product_feedback w)), product_name = name,
               user_query = query, feedback_type = ''perfect_match'',
               recommendation_source = source,
               fb_created_date = isoformat (datetime_now env (length (trace w)))\<rparr>] \<and>
         (\<forall>name2 source2.
            successful_patterns
              (fst (save_product_feedback env w name2 query ''perfect_match'' source2)) =
            successful_patterns
              (fst (save_product_feedback env w name query ''perfect_match'' source)))"
proof -
  let ?row = "\<lambda>name source. \<lparr>fb_id = next_id (map fb_id (product_feedback w)), product_name = name,
                     user_query = query, feedback_type = ''perfect_match'',
                     recommendation_source = source,
                     fb_created_date = isoformat (datetime_now env (length (trace w)))\<rparr>"
  let ?w2 = "\<lambda>name source. w\<lparr>trace := trace w @ [Feedback_insert name query ''perfect_match'' source],
                 product_feedback := product_feedback w @ [?row name source]\<rparr>"
  have eq: "\<And>name source. save_product_feedback env w name query ''perfect_match'' source =
           (save_successful_pattern env (?w2 name source) query (fst (detect_emotion env query))
              [''general''], True)"
    using ok by (simp add: save_product_feedback_def Let_def called_def split: prod.splits)
  have tr: "\<And>name source. trace (save_successful_pattern env (?w2 name source) query
                (fst (detect_emotion env query)) [''general'']) =
           trace w @
             [Feedback_insert name query ''perfect_match'' source,
              Pattern_upsert (pattern_key query) (fst (detect_emotion env query)) ''general'']"
    by (simp add: save_successful_pattern_def Let_def called_def split: option.splits)
  have fb: "\<And>name source. product_feedback (save_successful_pattern env (?w2 name source) query
                (fst (detect_emotion env query)) [''general'']) =
           product_feedback w @ [?row name source]"
    by (simp add: save_successful_pattern_def Let_def called_def split: option.splits)
  have pat: "\<And>name source. successful_patterns (save_successful_pattern env (?w2 name source) query
                (fst (detect_emotion env query)) [''general'']) =
             successful_patterns (save_successful_pattern env (?w2 [] []) query
                (fst (detect_emotion env query)) [''general''])"
    by (simp add: save_successful_pattern_def Let_def called_def split: option.splits)
  show ?thesis
  proof (intro conjI allI)
    show "save_product_feedback env w name query ''perfect_match'' source =
           (save_successful_pattern env (?w2 name source) query (fst (detect_emotion env query))
              [''general''], True)" by (rule eq)
  next
    show "trace (fst (save_product_feedback env w name query ''perfect_match'' source)) =
           trace w @
             [Feedback_insert name query ''perfect_match'' source,
              Pattern_upsert (pattern_key query) (fst (detect_emotion env query)) ''general'']"
      unfolding eq by (simp add: tr)
  next
    show "product_feedback (fst (save_product_feedback env w name query ''perfect_match'' source)) =
           product_feedback w @ [?row name source]"
      unfolding eq by (simp add: fb)
  next
    fix name2 source2
    show "successful_patterns
              (fst (save_product_feedback env w name2 query ''perfect_match'' source2)) =
            successful_patterns
              (fst (save_product_feedback env w name query ''perfect_match'' source))"
      unfolding eq using pat [of name2 source2] pat [of name source] by simp
  qed
qed

text \<open>Claim C7 on an accepted lamp in the demonstration shop.\<close>

theorem accepted_feedback_general_witness:
  "\<not> sqlite_fault demo_env (length (trace demo_shop)) \<and>
   detect_emotion demo_env ''Cozy reading lamp'' = (''happy'', 1 / 2, glyph_happy) \<and>
   trace (fst (save_product_feedback demo_env demo_shop ''Brass Lamp'' ''Cozy reading lamp''
                 ''perfect_match'' ''Semantic AI'')) =
     [Feedback_insert ''Brass Lamp'' ''Cozy reading lamp'' ''perfect_match'' ''Semantic AI'',
      Pattern_upsert ''cozy reading lamp'' ''happy'' ''general''] \<and>
   map successful_categories
     (successful_patterns (fst (save_product_feedback demo_env demo_shop ''Brass Lamp''
                 ''Cozy reading lamp'' ''perfect_match'' ''Semantic AI''))) =
     [''furniture,beauty,laptops'', ''general'']"
proof -
  have ok: "\<not> sqlite_fault demo_env (length (trace demo_shop))" by (simp add: demo_env_def)
  have emo: "detect_emotion demo_env ''Cozy reading lamp'' = (''happy'', 1 / 2, glyph_happy)"
    by (simp add: detect_emotion_def demo_env_def Let_def any_in_def lower_def)
  have key: "pattern_key ''Cozy reading lamp'' = ''cozy reading lamp''"
    by (simp add: pattern_key_def split_ws_def lower_def is_space_def)
  have t0: "trace demo_shop = []" by (simp add: demo_shop_def)
  note main = accepted_feedback_general [OF ok, of "''Brass Lamp''" "''Cozy reading lamp''"
      "''Semantic AI''"]
  have tr: "trace (fst (save_product_feedback demo_env demo_shop ''Brass Lamp'' ''Cozy reading lamp''
                 ''perfect_match'' ''Semantic AI'')) =
     [Feedback_insert ''Brass Lamp'' ''Cozy reading lamp'' ''perfect_match'' ''Semantic AI'',
      Pattern_upsert ''cozy reading lamp'' ''happy'' ''general'']"
    using main [THEN conjunct2, THEN conjunct1] by (simp add: emo key t0)
  have pats: "map successful_categories
     (successful_patterns (fst (save_product_feedback demo_env demo_shop ''Brass Lamp''
                 ''Cozy reading lamp'' ''perfect_match'' ''Semantic AI''))) =
     [''furniture,beauty,laptops'', ''general'']"
    unfolding main [THEN conjunct1]
    by (simp add: emo key save_successful_pattern_def Let_def called_def demo_shop_def
          demo_env_def has_key_def)
  from ok emo tr pats show ?thesis by (intro conjI)
qed

subsection \<open>Adapters swallow the failures of their source\<close>










subsection \<open>A query without words\<close>

lemma lower_char_space:
  assumes sp: "is_space c"
  shows "lower_char c = c"
proof (cases c)
  case (Char b0 b1 b2 b3 b4 b5 b6 b7)
  have "\<not> ((65 \<le> (of_char c :: nat) \<and> (of_char c :: nat) \<le> 90) \<or>
           (192 \<le> (of_char c :: nat) \<and> (of_char c :: nat) \<le> 222 \<and> (of_char c :: nat) \<noteq> 215))"
    using sp unfolding is_space_def Let_def by linarith
  then have "lower_char (Char b0 b1 b2 b3 b4 b5 b6 b7) = Char b0 b1 b2 b3 b4 b5 b6 b7"
    unfolding Char lower_char.simps Let_def by (rule if_not_P)
  then show ?thesis unfolding Char .
qed

lemma split_aux_spaces: "\<forall>c \<in> set s. is_space c \<Longrightarrow> split_aux [] s = []"
  by (induction s) auto

lemma no_words: "\<forall>c \<in> set query. is_space c \<Longrightarrow> split_ws (lower query) = []"
proof -
  assume a: "\<forall>c \<in> set query. is_space c"
  then have "lower query = query"
    unfolding lower_def by (induction query) (auto simp: lower_char_space)
  with a show ?thesis by (simp add: split_ws_def split_aux_spaces)
qed

lemma local_not_historical:
  assumes "snd (search_business_products env w emo query) \<noteq> []"
  shows "\<not> (\<exists>found t. emitted (trace (fst (neurochat_product_search env w emo query client'))) =
            emitted (trace w) @ [(query, emo, ''Historical Pattern'', found, t)])"
proof -
  obtain w1 ps where b: "search_business_products env w emo query = (w1, ps)" by fastforce
  have q1: "quiet w w1" using business_quiet [of w env emo query] b by simp
  have ps: "ps \<noteq> []" using assms b by simp
  have "emitted (trace (fst (neurochat_product_search env w emo query client'))) =
          emitted (trace w) @ [(query, emo, ''Local Business'', length ps,
             time_time env (length (trace w1)) - time_time env (length (trace w)))]"
    using b ps
    by (simp add: neurochat_product_search_def Let_def log_and_time_trace emitted_append
          quiet_emitted [OF q1])
  then show ?thesis by simp
qed

text \<open>
  Claim C9. For every query that is empty or made of white space only, the statement of
  \<^verbatim>\<open>get_successful_recommendations\<close> has empty parentheses and raises, the exception is
  swallowed, and the lookup returns the empty dict; step 2 then continues with step 3
  right after the lookup, and no run on such a query is recorded under
  "Historical Pattern".
\<close>

theorem wordless_query_lookup:
  assumes blank: "\<forall>c \<in> set query. is_space c"
  shows "get_successful_recommendations_body env (length (trace w)) w query emo = Inl SqliteError \<and>
         get_successful_recommendations env w query emo =
           (called w (Pattern_select query emo), None) \<and>
         neurochat_step2 env w st emo query client' =
           neurochat_step3 env (called w (Pattern_select query emo)) st emo query client' \<and>
         \<not> (\<exists>found t. emitted (trace (fst (neurochat_product_search env w emo query client'))) =
               emitted (trace w) @ [(query, emo, ''Historical Pattern'', found, t)])"
proof -
  have words: "split_ws (lower query) = []" by (rule no_words [OF blank])
  have body: "get_successful_recommendations_body env (length (trace w)) w query emo = Inl SqliteError"
    by (simp add: get_successful_recommendations_body_def words)
  have look: "\<And>w. get_successful_recommendations env w query emo =
           (called w (Pattern_select query emo), None)"
    by (simp add: get_successful_recommendations_def get_successful_recommendations_body_def
          words Let_def)
  have step: "\<And>w st. neurochat_step2 env w st emo query client' =
           neurochat_step3 env (called w (Pattern_select query emo)) st emo query client'"
    by (simp add: step2_cases look)
  have never: "\<not> (\<exists>found t. emitted (trace (fst (neurochat_product_search env w emo query client'))) =
               emitted (trace w) @ [(query, emo, ''Historical Pattern'', found, t)])"
  proof (cases "snd (search_business_products env w emo query) = []")
    case False
    then show ?thesis by (rule local_not_historical)
  next
    case True
    let ?w1 = "called w (Business_select emo query)"
    let ?w2 = "called ?w1 (Pattern_select query emo)"
    let ?st = "time_time env (length (trace w))"
    obtain w1 ps where b: "search_business_products env w emo query = (w1, ps)" by fastforce
    have w1: "w1 = ?w1" using business_world [of env w emo query] b by simp
    have r: "neurochat_product_search env w emo query client' =
             neurochat_step3 env ?w2 ?st emo query client'"
      using b True w1 by (simp add: neurochat_product_search_def Let_def step)
    have q2: "quiet w ?w2"
      using quiet_called [of "Business_select emo query" w]
            quiet_called [of "Pattern_select query emo" ?w1]
      by (auto intro: quiet_trans)
    have "returns_logged env w ?st query emo later_methods
            (neurochat_product_search env w emo query client')"
      unfolding r by (rule returns_logged_quiet [OF q2 step3_logged])
    then show ?thesis by (rule later_not_historical)
  qed
  from body look [of w] step [of w st] never show ?thesis by (intro conjI)
qed

text \<open>Claim C9 on one blank and on the empty query, over a store whose pattern would
  match the query "a" with the count 3.\<close>

theorem wordless_query_lookup_witness:
  "list_all is_space '' '' \<and>
   get_successful_recommendations demo_env demo_shop3 '' '' ''happy'' =
     (called demo_shop3 (Pattern_select '' '' ''happy''), None) \<and>
   get_successful_recommendations demo_env demo_shop3 '''' ''happy'' =
     (called demo_shop3 (Pattern_select '''' ''happy''), None) \<and>
   snd (get_successful_recommendations demo_env demo_shop3 ''a'' ''happy'') =
     Some \<lparr>categories = [''furniture'', ''beauty'', ''laptops''], h_success_count = 3\<rparr>"
proof -
  have blank: "\<forall>c \<in> set '' ''. is_space c" by (simp add: is_space_def)
  have empty: "\<forall>c \<in> set ''''. is_space c" by simp
  have a: "list_all is_space '' ''" by (simp add: is_space_def)
  have b: "get_successful_recommendations demo_env demo_shop3 '' '' ''happy'' =
     (called demo_shop3 (Pattern_select '' '' ''happy''), None)"
    using wordless_query_lookup [OF blank, of demo_env demo_shop3 "''happy''" 0 no_client] by simp
  have c: "get_successful_recommendations demo_env demo_shop3 '''' ''happy'' =
     (called demo_shop3 (Pattern_select '''' ''happy''), None)"
    using wordless_query_lookup [OF empty, of demo_env demo_shop3 "''happy''" 0 no_client] by simp
  have d: "snd (get_successful_recommendations demo_env demo_shop3 ''a'' ''happy'') =
     Some \<lparr>categories = [''furniture'', ''beauty'', ''laptops''], h_success_count = 3\<rparr>"
    by code_simp
  from a b c d show ?thesis by (intro conjI)
qed

subsection \<open>Feedback that is not an acceptance\<close>

text \<open>
  Claim C10. For every feedback call whose verdict is not \<^verbatim>\<open>"perfect_match"\<close>,
  \<^verbatim>\<open>save_product_feedback\<close> makes one request, the insert into the feedback log, and
  touches nothing else: the pattern store, the business tables and the analytics table
  are as before. The feedback log gains the one row (when the insert raises, no row, and
  the result is \<^verbatim>\<open>False\<close>).
\<close>

theorem rejected_feedback_frame:
  assumes other: "feedback_type' \<noteq> ''perfect_match''"
  shows "successful_patterns (fst (save_product_feedback env w name query feedback_type' source)) =
           successful_patterns w \<and>
         businesses (fst (save_product_feedback env w name query feedback_type' source)) =
           businesses w \<and>
         business_products (fst (save_product_feedback env w name query feedback_type' source)) =
           business_products w \<and>
         recommendation_analytics (fst (save_product_feedback env w name query feedback_type' source)) =
           recommendation_analytics w \<and>
         trace (fst (save_product_feedback env w name query feedback_type' source)) =
           trace w @ [Feedback_insert name query feedback_type' source] \<and>
         product_feedback (fst (save_product_feedback env w name query feedback_type' source)) =
           (if sqlite_fault env (length (trace w)) then product_feedback w
            else product_feedback w @
              [\<lparr>fb_id = next_id (map fb_id (product_feedback w)), product_name = name,
                user_query = query, feedback_type = feedback_type',
                recommendation_source = source,
                fb_created_date = isoformat (datetime_now env (length (trace w)))\<rparr>]) \<and>
         snd (save_product_feedback env w name query feedback_type' source) =
           (\<not> sqlite_fault env (length (trace w)))"
  using other by (simp add: save_product_feedback_def Let_def called_def)

text \<open>Claim C10 on a \<^verbatim>\<open>"not_relevant"\<close> verdict in the demonstration shop.\<close>

theorem rejected_feedback_frame_witness:
  "''not_relevant'' \<noteq> ''perfect_match'' \<and>
   successful_patterns (fst (save_product_feedback demo_env demo_shop ''Desk'' ''I need a desk''
                               ''not_relevant'' ''DummyJSON'')) =
     successful_patterns demo_shop \<and>
   map product_name (product_feedback (fst (save_product_feedback demo_env demo_shop ''Desk''
                               ''I need a desk'' ''not_relevant'' ''DummyJSON''))) = [''Desk'']"
proof -
  have other: "''not_relevant'' \<noteq> ''perfect_match''" by simp
  have ok: "\<not> sqlite_fault demo_env (length (trace demo_shop))" by (simp add: demo_env_def)
  have empty: "product_feedback demo_shop = []" by (simp add: demo_shop_def)
  note main = rejected_feedback_frame [OF other, of demo_env demo_shop "''Desk''"
      "''I need a desk''" "''DummyJSON''"]
  have a: "successful_patterns (fst (save_product_feedback demo_env demo_shop ''Desk''
             ''I need a desk'' ''not_relevant'' ''DummyJSON'')) = successful_patterns demo_shop"
    using main by (rule conjunct1)
  have b: "map product_name (product_feedback (fst (save_product_feedback demo_env demo_shop
             ''Desk'' ''I need a desk'' ''not_relevant'' ''DummyJSON''))) = [''Desk'']"
    using main ok empty by simp
  from other a b show ?thesis by (intro conjI)
qed

end
